theory Spec2Isabelle
  imports Main "HOL-Library.Sublist"
begin

section \<open>JavaScript strings and values\<close>

text \<open>
  A JavaScript string is a sequence of UTF-16 code units. The model covers the strings
  all of whose code units are below 256: an Isabelle \<open>char\<close> is one such code unit.
  These are the strings that the platform's base64 encoder accepts; given any other
  string it throws, so the encoder of the platform returns an error or a string.

  \<open>indexOf\<close> and \<open>substring\<close> follow \<^verbatim>\<open>String.prototype.indexOf\<close> (with a
  one-character needle, as everywhere in the source) and
  \<^verbatim>\<open>String.prototype.substring\<close>: the index is \<open>-1\<close> when the character is absent,
  and \<open>substring\<close> clamps both arguments to the string and swaps them when the first
  is the larger.
\<close>

definition indexOf :: "string \<Rightarrow> char \<Rightarrow> int" where
  "indexOf s c =
     (if c \<in> set s then int (length (takeWhile (\<lambda>x. x \<noteq> c) s)) else - 1)"

definition substring :: "string \<Rightarrow> int \<Rightarrow> int \<Rightarrow> string" where
  "substring s a b =
     (let n = int (length s);
          a' = max 0 (min a n);
          b' = max 0 (min b n)
      in take (nat (max a' b' - min a' b')) (drop (nat (min a' b')) s))"

definition substring_from :: "string \<Rightarrow> int \<Rightarrow> string" where
  "substring_from s a = substring s a (int (length s))"

definition startsWith :: "string \<Rightarrow> string \<Rightarrow> bool" where
  "startsWith s p = (take (length p) s = p)"

text \<open>Number-to-string conversion of an integer-valued number: its decimal digits.\<close>

function dec_digits :: "int \<Rightarrow> string" where
  "dec_digits i =
     (if i < 10 then [''0123456789'' ! nat i]
      else dec_digits (i div 10) @ [''0123456789'' ! nat (i mod 10)])"
  by pat_completeness auto
termination
  by (relation "measure nat") auto

declare dec_digits.simps [simp del]

definition string_of_int :: "int \<Rightarrow> string" where
  "string_of_int i = (if i < 0 then CHR ''-'' # dec_digits (- i) else dec_digits i)"

text \<open>
  A template literal \<^verbatim>\<open>`${x}`\<close> converts \<open>x\<close> to a string; \<^verbatim>\<open>undefined\<close> becomes
  the nine letters of its name. \<open>None\<close> stands for \<^verbatim>\<open>undefined\<close>.
\<close>

definition template :: "string option \<Rightarrow> string" where
  "template v = (case v of None \<Rightarrow> ''undefined'' | Some s \<Rightarrow> s)"

text \<open>The characters \<^verbatim>\<open>"\<close> and \<^verbatim>\<open>'\<close> of the source's messages.\<close>

definition dquote :: string where
  "dquote = [CHR 0x22]"

definition squote :: string where
  "squote = [CHR 0x27]"

text \<open>\<^verbatim>\<open>x || ''\<close>: \<^verbatim>\<open>undefined\<close> and the empty string are both falsy.\<close>

definition or_empty :: "string option \<Rightarrow> string" where
  "or_empty v = (case v of None \<Rightarrow> [] | Some s \<Rightarrow> s)"

section \<open>Errors\<close>

text \<open>
  The source throws \<^verbatim>\<open>InvalidConfigField\<close> and \<^verbatim>\<open>InvalidURI\<close>; the platform's
  functions throw errors of their own (\<^verbatim>\<open>TypeError\<close>, \<^verbatim>\<open>URIError\<close>, ...), each with
  a name and a message. A function that may throw returns \<open>error + 'a\<close>.
\<close>

datatype jserror = JSError (js_name: string) (js_message: string)

datatype error =
    InvalidConfigField string
  | InvalidURI string
  | PlatformError jserror

fun error_name :: "error \<Rightarrow> string" where
  "error_name (InvalidConfigField m) = ''InvalidConfigField''"
| "error_name (InvalidURI m) = ''InvalidURI''"
| "error_name (PlatformError e) = js_name e"

fun error_message :: "error \<Rightarrow> string" where
  "error_message (InvalidConfigField m) = m"
| "error_message (InvalidURI m) = m"
| "error_message (PlatformError e) = js_message e"

fun is_InvalidURI :: "error \<Rightarrow> bool" where
  "is_InvalidURI (InvalidURI m) = True"
| "is_InvalidURI e = False"

definition bind :: "error + 'a \<Rightarrow> ('a \<Rightarrow> error + 'b) \<Rightarrow> error + 'b" where
  "bind m f = (case m of Inl e \<Rightarrow> Inl e | Inr x \<Rightarrow> f x)"

definition platform_call :: "jserror + 'a \<Rightarrow> error + 'a" where
  "platform_call r = (case r of Inl e \<Rightarrow> Inl (PlatformError e) | Inr x \<Rightarrow> Inr x)"

section \<open>The platform\<close>

text \<open>
  The source binds \<^verbatim>\<open>URL\<close>, \<^verbatim>\<open>b64Encode\<close> and \<^verbatim>\<open>b64Decode\<close> to what the platform
  provides (the browser's, or Node's \<^verbatim>\<open>url\<close> and \<^verbatim>\<open>base-64\<close> modules) and calls the
  built-in \<^verbatim>\<open>encodeURIComponent\<close> and \<^verbatim>\<open>decodeURIComponent\<close>. None is code of the
  repository, so every function of the source takes the platform as a parameter.
  Of a parsed URL the source reads \<^verbatim>\<open>hostname\<close>, \<^verbatim>\<open>port\<close>, \<^verbatim>\<open>username\<close>,
  \<^verbatim>\<open>hash\<close> and \<^verbatim>\<open>searchParams\<close>; the last is absent (\<open>None\<close>) on a platform
  without it, and otherwise the list of decoded name-value pairs.
\<close>

record url =
  url_hostname :: string
  url_port :: string
  url_username :: string
  url_hash :: string
  url_searchParams :: "(string \<times> string) list option"

record platform =
  URL :: "string \<Rightarrow> jserror + url"
  b64Encode :: "string \<Rightarrow> jserror + string"
  b64Decode :: "string \<Rightarrow> jserror + string"
  encodeURIComponent :: "string \<Rightarrow> string"
  decodeURIComponent :: "string \<Rightarrow> jserror + string"

text \<open>\<^verbatim>\<open>searchParams.get(name)\<close>: the first value stored under the name, or \<^verbatim>\<open>null\<close>.\<close>

definition searchParams_get :: "(string \<times> string) list \<Rightarrow> string \<Rightarrow> string option" where
  "searchParams_get ps name = map_of ps name"

section \<open>Config fields\<close>

text \<open>
  Each field class wraps its validated string \<^verbatim>\<open>data\<close>. A constructor takes an
  instance of its own class, a string, or (through \<^verbatim>\<open>Config\<close>, whose fields are
  optional) \<^verbatim>\<open>undefined\<close>; \<^verbatim>\<open>Port\<close> also takes a number. \<open>PNum i\<close> is the number
  with the integer value \<open>i\<close>, of a magnitude below \<open>10\<^sup>2\<^sup>1\<close>, where the conversion of
  a number to a string gives its decimal digits; numbers with a fraction are not
  modelled.
\<close>

datatype Host = MkHost (Host_data: string)
datatype Port = MkPort (Port_data: string)
datatype Method = MkMethod (Method_data: string)
datatype Password = MkPassword (Password_data: string)
datatype Tag = MkTag (Tag_data: string)
datatype Plugin = MkPlugin (Plugin_data: string)

datatype 'f raw = Undefined | Str string | Inst 'f

datatype raw_port = PUndefined | PStr string | PNum int | PInst Port

definition throwErrorForInvalidField :: "string \<Rightarrow> string \<Rightarrow> error" where
  "throwErrorForInvalidField name val = InvalidConfigField (''Invalid '' @ name @ '': '' @ val)"

text \<open>
  \<^verbatim>\<open>if (host instanceof Host) host = host.data\<close>: an instance is replaced by its
  data, and the code below the test runs on the result.
\<close>

definition unwrap :: "('f \<Rightarrow> string) \<Rightarrow> 'f raw \<Rightarrow> string option" where
  "unwrap d r = (case r of Undefined \<Rightarrow> None | Str s \<Rightarrow> Some s | Inst f \<Rightarrow> Some (d f))"

definition new_Host :: "platform \<Rightarrow> Host raw \<Rightarrow> error + Host" where
  "new_Host P h =
     (let host = unwrap Host_data h in
      case URL P (''http://'' @ template host @ ''/'') of
        Inl e \<Rightarrow> Inl (throwErrorForInvalidField ''host'' (template host))
      | Inr urlParserResult \<Rightarrow> Inr (MkHost (url_hostname urlParserResult)))"

text \<open>
  The port after the \<^verbatim>\<open>instanceof\<close> test is \<^verbatim>\<open>undefined\<close>, a string or a number;
  \<open>port_text\<close> is its conversion to a string, and \<^verbatim>\<open>port === ''\<close> holds of the empty
  string only.
\<close>

definition port_text :: "raw_port \<Rightarrow> string" where
  "port_text p =
     (case p of PUndefined \<Rightarrow> ''undefined'' | PStr s \<Rightarrow> s | PNum i \<Rightarrow> string_of_int i
      | PInst f \<Rightarrow> Port_data f)"

definition port_is_empty_string :: "raw_port \<Rightarrow> bool" where
  "port_is_empty_string p =
     (case p of PStr s \<Rightarrow> s = [] | PInst f \<Rightarrow> Port_data f = [] | PUndefined \<Rightarrow> False
      | PNum i \<Rightarrow> False)"

definition new_Port :: "platform \<Rightarrow> raw_port \<Rightarrow> error + Port" where
  "new_Port P p =
     (if port_is_empty_string p then Inl (throwErrorForInvalidField ''port'' (port_text p))
      else case URL P (''http://0.0.0.0:'' @ port_text p @ ''/'') of
        Inl e \<Rightarrow> Inl (throwErrorForInvalidField ''port'' (port_text p))
      | Inr urlParserResult \<Rightarrow> Inr (MkPort (url_port urlParserResult)))"

definition METHODS :: "string list" where
  "METHODS =
     [''rc4-md5'', ''aes-128-gcm'', ''aes-192-gcm'', ''aes-256-gcm'', ''aes-128-cfb'',
      ''aes-192-cfb'', ''aes-256-cfb'', ''aes-128-ctr'', ''aes-192-ctr'', ''aes-256-ctr'',
      ''camellia-128-cfb'', ''camellia-192-cfb'', ''camellia-256-cfb'', ''bf-cfb'',
      ''chacha20-ietf-poly1305'', ''salsa20'', ''chacha20'', ''chacha20-ietf'']"

definition new_Method :: "Method raw \<Rightarrow> error + Method" where
  "new_Method m =
     (let method = unwrap Method_data m in
      case method of
        None \<Rightarrow> Inl (throwErrorForInvalidField ''method'' (template method))
      | Some s \<Rightarrow>
          if s \<in> set METHODS then Inr (MkMethod s)
          else Inl (throwErrorForInvalidField ''method'' (template method)))"

definition new_Password :: "Password raw \<Rightarrow> Password" where
  "new_Password p = MkPassword (or_empty (unwrap Password_data p))"

definition new_Tag :: "Tag raw \<Rightarrow> Tag" where
  "new_Tag t = MkTag (or_empty (unwrap Tag_data t))"

definition new_Plugin :: "Plugin raw \<Rightarrow> Plugin" where
  "new_Plugin p = MkPlugin (or_empty (unwrap Plugin_data p))"

section \<open>Config\<close>

record UnsafeConfig =
  host :: "Host raw"
  port :: raw_port
  "method" :: "Method raw"
  password :: "Password raw"
  tag :: "Tag raw"
  plugin :: "Plugin raw"

record Config =
  host_field :: Host
  port_field :: Port
  method_field :: Method
  password_field :: Password
  tag_field :: Tag

text \<open>The getters return the fields' data.\<close>

definition Config_host :: "'a Config_scheme \<Rightarrow> string" where
  "Config_host c = Host_data (host_field c)"

definition Config_port :: "'a Config_scheme \<Rightarrow> string" where
  "Config_port c = Port_data (port_field c)"

definition Config_method :: "'a Config_scheme \<Rightarrow> string" where
  "Config_method c = Method_data (method_field c)"

definition Config_password :: "'a Config_scheme \<Rightarrow> string" where
  "Config_password c = Password_data (password_field c)"

definition Config_tag :: "'a Config_scheme \<Rightarrow> string" where
  "Config_tag c = Tag_data (tag_field c)"

text \<open>
  The constructor runs the five setters in the order of the source; each setter
  constructs the field, and the first that throws ends the construction.
\<close>

definition new_Config :: "platform \<Rightarrow> UnsafeConfig \<Rightarrow> error + Config" where
  "new_Config P config =
     bind (new_Host P (host config)) (\<lambda>h.
     bind (new_Port P (port config)) (\<lambda>p.
     bind (new_Method (method config)) (\<lambda>m.
     Inr \<lparr> host_field = h, port_field = p, method_field = m,
           password_field = new_Password (password config),
           tag_field = new_Tag (tag config) \<rparr>)))"

text \<open>
  A \<^verbatim>\<open>Config\<close> object passed where an \<^verbatim>\<open>UnsafeConfig\<close> is expected is read through
  its getters, which return strings; it has no \<^verbatim>\<open>plugin\<close> property.
\<close>

definition as_UnsafeConfig :: "'a Config_scheme \<Rightarrow> UnsafeConfig" where
  "as_UnsafeConfig c =
     \<lparr> host = Str (Config_host c), port = PStr (Config_port c),
       method = Str (Config_method c), password = Str (Config_password c),
       tag = Str (Config_tag c), plugin = Undefined \<rparr>"

section \<open>URIs\<close>

record LegacyBase64URI = Config +
  b64EncodedData :: string

record Sip002URI = Config +
  b64EncodedUserInfo :: string
  plugin_field :: Plugin

definition Sip002URI_plugin :: "Sip002URI \<Rightarrow> string" where
  "Sip002URI_plugin u = Plugin_data (plugin_field u)"

subsection \<open>ShadowsocksURI\<close>

text \<open>The constructor is \<^verbatim>\<open>super(new Config(config))\<close>: the fields are validated twice.\<close>

definition new_ShadowsocksURI :: "platform \<Rightarrow> UnsafeConfig \<Rightarrow> error + Config" where
  "new_ShadowsocksURI P config =
     bind (new_Config P config) (\<lambda>c. new_Config P (as_UnsafeConfig c))"

definition validateProtocol :: "string \<Rightarrow> error + unit" where
  "validateProtocol uri =
     (if startsWith uri ''ss://'' then Inr ()
      else Inl (InvalidURI
             (''URI must start with '' @ dquote @ ''ss://'' @ dquote @ '': '' @ uri)))"

definition getHash :: "platform \<Rightarrow> UnsafeConfig \<Rightarrow> string" where
  "getHash P config =
     (case unwrap Tag_data (tag config) of
        None \<Rightarrow> []
      | Some t \<Rightarrow> if t = [] then [] else CHR ''#'' # encodeURIComponent P t)"

subsection \<open>LegacyBase64URI\<close>

text \<open>
  The padding loop of the constructor:
  \<^verbatim>\<open>for (; b64EncodedData[dataLength - 1 - paddingLength] === '='; paddingLength++);\<close>
  Reading a string at an index outside it gives \<^verbatim>\<open>undefined\<close>, which ends the loop.
\<close>

function paddingLength_loop :: "string \<Rightarrow> nat \<Rightarrow> nat" where
  "paddingLength_loop b64 paddingLength =
     (if paddingLength < length b64 \<and> b64 ! (length b64 - 1 - paddingLength) = CHR ''=''
      then paddingLength_loop b64 (paddingLength + 1)
      else paddingLength)"
  by pat_completeness auto
termination
  by (relation "measure (\<lambda>(b64, k). length b64 - k)") auto

declare paddingLength_loop.simps [simp del]

definition strip_padding :: "string \<Rightarrow> string" where
  "strip_padding b64 =
     (let dataLength = length b64;
          paddingLength = paddingLength_loop b64 0
      in if paddingLength = 0 then b64
         else substring b64 0 (int dataLength - int paddingLength))"

text \<open>
  The constructor is \<^verbatim>\<open>super(new Config(config))\<close> on top of the constructor of
  \<^verbatim>\<open>ShadowsocksURI\<close>, so the fields are validated three times before the base64
  text is computed from the getters; what the encoder throws is not caught.
  \<open>Config.extend c (LegacyBase64URI.fields d)\<close> is the record \<open>c\<close> with the field
  \<open>b64EncodedData = d\<close> added.
\<close>

definition new_LegacyBase64URI :: "platform \<Rightarrow> UnsafeConfig \<Rightarrow> error + LegacyBase64URI" where
  "new_LegacyBase64URI P config =
     bind (new_Config P config) (\<lambda>c0.
     bind (new_ShadowsocksURI P (as_UnsafeConfig c0)) (\<lambda>c.
     bind (platform_call (b64Encode P
             (Config_method c @ '':'' @ Config_password c @ ''@'' @ Config_host c @ '':'' @
              Config_port c))) (\<lambda>encoded.
     Inr (Config.extend c (LegacyBase64URI.fields (strip_padding encoded))))))"

definition LegacyBase64URI_toString :: "platform \<Rightarrow> LegacyBase64URI \<Rightarrow> string" where
  "LegacyBase64URI_toString P u = ''ss://'' @ b64EncodedData u @ getHash P (as_UnsafeConfig u)"

definition LegacyBase64URI_parse :: "platform \<Rightarrow> string \<Rightarrow> error + LegacyBase64URI" where
  "LegacyBase64URI_parse P uri =
     bind (validateProtocol uri) (\<lambda>_.
     let hashIndex = indexOf uri CHR ''#'';
         b64EndIndex = (if hashIndex = - 1 then int (length uri) else hashIndex);
         tagStartIndex = (if hashIndex = - 1 then int (length uri) else hashIndex + 1)
     in
     bind (platform_call (decodeURIComponent P (substring_from uri tagStartIndex))) (\<lambda>tagString.
     let tag = new_Tag (Str tagString);
         b64EncodedData = substring uri (int (length ''ss://'')) b64EndIndex
     in
     bind (platform_call (b64Decode P b64EncodedData)) (\<lambda>b64DecodedData.
     let atSignIndex = indexOf b64DecodedData CHR ''@'' in
     if atSignIndex = - 1
     then Inl (InvalidURI (''Missing '' @ dquote @ ''@'' @ dquote @ '': '' @ b64DecodedData))
     else
     let methodAndPassword = substring b64DecodedData 0 atSignIndex;
         methodEndIndex = indexOf methodAndPassword CHR '':''
     in
     if methodEndIndex = - 1
     then Inl (InvalidURI (''Missing password part: '' @ methodAndPassword))
     else
     let methodString = substring methodAndPassword 0 methodEndIndex in
     bind (new_Method (Str methodString)) (\<lambda>method.
     let passwordStartIndex = methodEndIndex + 1;
         passwordString = substring_from methodAndPassword passwordStartIndex;
         password = new_Password (Str passwordString);
         hostStartIndex = atSignIndex + 1;
         hostAndPort = substring_from b64DecodedData hostStartIndex;
         hostEndIndex = indexOf hostAndPort CHR '':''
     in
     if hostEndIndex = - 1 then Inl (InvalidURI (''Missing port part: '' @ hostAndPort))
     else
     bind (new_Host P (Str (substring hostAndPort 0 hostEndIndex))) (\<lambda>host.
     let portStartIndex = hostEndIndex + 1;
         portString = substring_from hostAndPort portStartIndex
     in
     bind (new_Port P (PStr portString)) (\<lambda>port.
     new_LegacyBase64URI P
       \<lparr> host = Inst host, port = PInst port, method = Inst method,
         password = Inst password, tag = Inst tag, plugin = Undefined \<rparr>))))))"

subsection \<open>Sip002URI\<close>

text \<open>
  The constructor validates the fields three times as well, computes the base64 text of
  method and password, and constructs the plugin from the \<^verbatim>\<open>plugin\<close> property of its
  argument.
\<close>

definition new_Sip002URI :: "platform \<Rightarrow> UnsafeConfig \<Rightarrow> error + Sip002URI" where
  "new_Sip002URI P config =
     bind (new_Config P config) (\<lambda>c0.
     bind (new_ShadowsocksURI P (as_UnsafeConfig c0)) (\<lambda>c.
     bind (platform_call (b64Encode P (Config_method c @ '':'' @ Config_password c)))
       (\<lambda>encoded.
     Inr (Config.extend c (Sip002URI.fields encoded (new_Plugin (plugin config)))))))"

text \<open>\<^verbatim>\<open>username.replace(/%3D/g, '=')\<close>: every occurrence, from the left.\<close>

fun replace_3D :: "string \<Rightarrow> string" where
  "replace_3D [] = []"
| "replace_3D (c # cs) =
     (if c = CHR ''%'' \<and> take 2 cs = ''3D'' then CHR ''='' # replace_3D (drop 2 cs)
      else c # replace_3D cs)"

definition Sip002URI_parse :: "platform \<Rightarrow> string \<Rightarrow> error + Sip002URI" where
  "Sip002URI_parse P uri =
     bind (validateProtocol uri) (\<lambda>_.
     let inputForUrlParser = ''http'' @ substring_from uri 2 in
     bind (platform_call (URL P inputForUrlParser)) (\<lambda>urlParserResult.
     bind (new_Host P (Str (url_hostname urlParserResult))) (\<lambda>host.
     bind (new_Port P (PStr (url_port urlParserResult))) (\<lambda>port.
     bind (platform_call
             (decodeURIComponent P (substring_from (url_hash urlParserResult) 1))) (\<lambda>tagString.
     let tag = new_Tag (Str tagString);
         b64EncodedUserInfo = replace_3D (url_username urlParserResult)
     in
     bind (platform_call (b64Decode P b64EncodedUserInfo)) (\<lambda>b64DecodedUserInfo.
     let colonIdx = indexOf b64DecodedUserInfo CHR '':'' in
     if colonIdx = - 1
     then Inl (InvalidURI (''Missing password part: '' @ b64DecodedUserInfo))
     else
     let methodString = substring b64DecodedUserInfo 0 colonIdx in
     bind (new_Method (Str methodString)) (\<lambda>method.
     let passwordString = substring_from b64DecodedUserInfo (colonIdx + 1);
         password = new_Password (Str passwordString);
         plugin =
           (case url_searchParams urlParserResult of
              None \<Rightarrow> Undefined
            | Some searchParams \<Rightarrow>
                (case searchParams_get searchParams ''plugin'' of
                   None \<Rightarrow> Undefined
                 | Some pluginString \<Rightarrow>
                     if pluginString = [] then Undefined
                     else Inst (new_Plugin (Str pluginString))))
     in
     new_Sip002URI P
       \<lparr> host = Inst host, port = PInst port, method = Inst method,
         password = Inst password, tag = Inst tag, plugin = plugin \<rparr>)))))))"

definition Sip002URI_toString :: "platform \<Rightarrow> Sip002URI \<Rightarrow> string" where
  "Sip002URI_toString P u =
     (let plugin = Sip002URI_plugin u;
          queryString = (if plugin = [] then [] else ''?plugin='' @ plugin);
          hash = getHash P (as_UnsafeConfig u)
      in ''ss://'' @ b64EncodedUserInfo u @ ''@'' @ Config_host u @ '':'' @ Config_port u @
         ''/'' @ queryString @ hash)"

subsection \<open>The dispatcher\<close>

text \<open>
  \<^verbatim>\<open>ShadowsocksURI.parse\<close> runs over the list of URI classes, returns what the first
  successful \<^verbatim>\<open>parse\<close> returns, and keeps the first error thrown
  (\<^verbatim>\<open>error = error || e\<close>).
\<close>

datatype UriType = LegacyBase64URI | Sip002URI

datatype parsed = Legacy LegacyBase64URI | Sip002 Sip002URI

fun UriType_parse :: "platform \<Rightarrow> UriType \<Rightarrow> string \<Rightarrow> error + parsed" where
  "UriType_parse P LegacyBase64URI uri = map_sum id Legacy (LegacyBase64URI_parse P uri)"
| "UriType_parse P Sip002URI uri = map_sum id Sip002 (Sip002URI_parse P uri)"

fun parse_loop :: "platform \<Rightarrow> string \<Rightarrow> UriType list \<Rightarrow> error option \<Rightarrow> error option + parsed"
  where
  "parse_loop P uri [] error = Inl error"
| "parse_loop P uri (t # ts) error =
     (case UriType_parse P t uri of
        Inr c \<Rightarrow> Inr c
      | Inl e \<Rightarrow> parse_loop P uri ts (Some (case error of None \<Rightarrow> e | Some e0 \<Rightarrow> e0)))"

definition or_default :: "string \<Rightarrow> string \<Rightarrow> string" where
  "or_default s d = (if s = [] then d else s)"

text \<open>
  The code after the loop. With no error recorded (an empty list of classes, which the
  source does not have) reading \<^verbatim>\<open>error.name\<close> throws a \<^verbatim>\<open>TypeError\<close>.
\<close>

definition rethrow :: "string \<Rightarrow> error option \<Rightarrow> error" where
  "rethrow uri error =
     (case error of
        None \<Rightarrow>
          PlatformError (JSError ''TypeError''
            (''Cannot read property '' @ squote @ ''name'' @ squote @ '' of undefined''))
      | Some e \<Rightarrow>
          if is_InvalidURI e then e
          else
            let originalErrorName = or_default (error_name e) ''(Unnamed Error)'';
                originalErrorMessage =
                  or_default (error_message e) ''(no error message provided)'';
                originalErrorString = originalErrorName @ '': '' @ originalErrorMessage;
                newErrorMessage =
                  ''Invalid input: '' @ uri @ '' - Original error: '' @ originalErrorString
            in InvalidURI newErrorMessage)"

definition dispatch :: "platform \<Rightarrow> UriType list \<Rightarrow> string \<Rightarrow> error + parsed" where
  "dispatch P types uri =
     (case parse_loop P uri types None of
        Inr c \<Rightarrow> Inr c
      | Inl error \<Rightarrow> Inl (rethrow uri error))"

definition ShadowsocksURI_parse :: "platform \<Rightarrow> string \<Rightarrow> error + parsed" where
  "ShadowsocksURI_parse P uri = dispatch P [LegacyBase64URI, Sip002URI] uri"

section \<open>A reference platform\<close>

text \<open>
  The witnesses and counterexamples below run the source on one platform, written out
  here: base64 as \<^verbatim>\<open>btoa\<close>, \<^verbatim>\<open>atob\<close> and the \<^verbatim>\<open>base-64\<close> module compute it
  (RFC 4648 alphabet, padding optional on decoding), \<^verbatim>\<open>encodeURIComponent\<close> and
  \<^verbatim>\<open>decodeURIComponent\<close> as ECMAScript defines them, and \<^verbatim>\<open>URL\<close> as the URL
  Standard (WHATWG) defines its parser and getters. Where a result would need a code
  unit above 255, or Unicode's IDNA tables, the reference platform is left unspecified
  (\<open>outside_model\<close>); no theorem below evaluates such an input.
\<close>

definition outside_model :: "'a" where
  "outside_model = undefined"

subsection \<open>Characters\<close>

definition code :: "char \<Rightarrow> nat" where
  "code c = of_char c"

definition is_digit :: "char \<Rightarrow> bool" where
  "is_digit c = (48 \<le> code c \<and> code c \<le> 57)"

definition is_alpha :: "char \<Rightarrow> bool" where
  "is_alpha c = ((65 \<le> code c \<and> code c \<le> 90) \<or> (97 \<le> code c \<and> code c \<le> 122))"

definition is_hex :: "char \<Rightarrow> bool" where
  "is_hex c = (is_digit c \<or> (65 \<le> code c \<and> code c \<le> 70) \<or> (97 \<le> code c \<and> code c \<le> 102))"

definition hex_val :: "char \<Rightarrow> nat" where
  "hex_val c =
     (if is_digit c then code c - 48
      else if 97 \<le> code c then code c - 87
      else code c - 55)"

definition ascii_lower :: "char \<Rightarrow> char" where
  "ascii_lower c = (if 65 \<le> code c \<and> code c \<le> 90 then char_of (code c + 32) else c)"

definition upper_hex_digit :: "nat \<Rightarrow> char" where
  "upper_hex_digit n = ''0123456789ABCDEF'' ! (n mod 16)"

definition lower_hex_digit :: "nat \<Rightarrow> char" where
  "lower_hex_digit n = ''0123456789abcdef'' ! (n mod 16)"

text \<open>The value of a string of digits in a radix, most significant digit first.\<close>

definition digits_val :: "int \<Rightarrow> string \<Rightarrow> int" where
  "digits_val radix ds = foldl (\<lambda>v c. v * radix + int (hex_val c)) 0 ds"

text \<open>Splitting at every occurrence of a character (the parts may be empty).\<close>

fun split_on :: "char \<Rightarrow> string \<Rightarrow> string list" where
  "split_on d [] = [[]]"
| "split_on d (c # cs) =
     (if c = d then [] # split_on d cs
      else case split_on d cs of p # ps \<Rightarrow> (c # p) # ps | [] \<Rightarrow> [[c]])"

subsection \<open>UTF-8 and percent-encoding\<close>

text \<open>
  The UTF-8 bytes of a code unit below 256, and the decoding of UTF-8 bytes whose code
  points are below 256.
\<close>

definition utf8_bytes :: "char \<Rightarrow> nat list" where
  "utf8_bytes c = (if code c < 128 then [code c] else [192 + code c div 64, 128 + code c mod 64])"

fun utf8_decode :: "nat list \<Rightarrow> string" where
  "utf8_decode [] = []"
| "utf8_decode [b] = (if b < 128 then [char_of b] else outside_model)"
| "utf8_decode (b # b' # bs) =
     (if b < 128 then char_of b # utf8_decode (b' # bs)
      else if (b = 194 \<or> b = 195) \<and> 128 \<le> b' \<and> b' < 192
      then char_of ((b - 192) * 64 + (b' - 128)) # utf8_decode bs
      else outside_model)"

definition percent_byte :: "nat \<Rightarrow> string" where
  "percent_byte b = [CHR ''%'', upper_hex_digit (b div 16), upper_hex_digit b]"

definition percent_encode :: "(nat \<Rightarrow> bool) \<Rightarrow> string \<Rightarrow> string" where
  "percent_encode in_set s =
     concat (map (\<lambda>c. if 128 \<le> code c \<or> in_set (code c)
                       then concat (map percent_byte (utf8_bytes c)) else [c]) s)"

text \<open>Percent-decoding to bytes, as the URL Standard defines it: a \<open>%\<close> that is not
  followed by two hexadecimal digits stands for itself.\<close>

fun percent_decode :: "string \<Rightarrow> nat list" where
  "percent_decode [] = []"
| "percent_decode (c # cs) =
     (if c = CHR ''%'' \<and> length cs \<ge> 2 \<and> is_hex (cs ! 0) \<and> is_hex (cs ! 1)
      then (hex_val (cs ! 0) * 16 + hex_val (cs ! 1)) # percent_decode (drop 2 cs)
      else utf8_bytes c @ percent_decode cs)"

text \<open>The percent-encode sets of the URL Standard, on code points below 128.\<close>

definition c0_control_set :: "nat \<Rightarrow> bool" where
  "c0_control_set n = (n \<le> 31 \<or> 126 < n)"

definition fragment_set :: "nat \<Rightarrow> bool" where
  "fragment_set n = (c0_control_set n \<or> n \<in> set [32, 34, 60, 62, 96])"

definition query_set :: "nat \<Rightarrow> bool" where
  "query_set n = (c0_control_set n \<or> n \<in> set [32, 34, 35, 60, 62])"

definition special_query_set :: "nat \<Rightarrow> bool" where
  "special_query_set n = (query_set n \<or> n = 39)"

definition path_set :: "nat \<Rightarrow> bool" where
  "path_set n = (query_set n \<or> n \<in> set [63, 94, 96, 123, 125])"

definition userinfo_set :: "nat \<Rightarrow> bool" where
  "userinfo_set n = (path_set n \<or> n \<in> set [47, 58, 59, 61, 64, 91, 92, 93, 124])"

subsection \<open>encodeURIComponent and decodeURIComponent\<close>

text \<open>
  \<^verbatim>\<open>encodeURIComponent\<close> keeps the letters, the digits and \<^verbatim>\<open>- _ . ! ~ * ' ( )\<close>,
  and writes every other code unit as the percent-encoded bytes of its UTF-8 form.
\<close>

definition uri_unreserved :: "char \<Rightarrow> bool" where
  "uri_unreserved c =
     (is_alpha c \<or> is_digit c \<or> code c \<in> set [45, 95, 46, 33, 126, 42, 39, 40, 41])"

definition ref_encodeURIComponent :: "string \<Rightarrow> string" where
  "ref_encodeURIComponent s =
     concat (map (\<lambda>c. if uri_unreserved c then [c]
                       else concat (map percent_byte (utf8_bytes c))) s)"

definition URIError :: jserror where
  "URIError = JSError ''URIError'' ''URI malformed''"

text \<open>
  \<^verbatim>\<open>decodeURIComponent\<close> throws a \<^verbatim>\<open>URIError\<close> at a \<open>%\<close> that is not followed by two
  hexadecimal digits, and where the decoded bytes are not UTF-8. A two-byte sequence
  with the lead byte C2 or C3 is a code point below 256; the lead bytes C0 and C1 (an
  overlong form), 80 to BF and F8 to FF are not UTF-8; the other lead bytes start a
  code point above 255.
\<close>

definition escape_byte :: "string \<Rightarrow> nat option" where
  "escape_byte s =
     (if length s \<ge> 3 \<and> s ! 0 = CHR ''%'' \<and> is_hex (s ! 1) \<and> is_hex (s ! 2)
      then Some (hex_val (s ! 1) * 16 + hex_val (s ! 2)) else None)"

fun ref_decodeURIComponent :: "string \<Rightarrow> jserror + string" where
  "ref_decodeURIComponent [] = Inr []"
| "ref_decodeURIComponent (c # cs) =
     (if c \<noteq> CHR ''%''
      then (case ref_decodeURIComponent cs of Inl e \<Rightarrow> Inl e | Inr r \<Rightarrow> Inr (c # r))
      else case escape_byte (c # cs) of
        None \<Rightarrow> Inl URIError
      | Some b \<Rightarrow>
          if b < 128
          then (case ref_decodeURIComponent (drop 2 cs) of
                  Inl e \<Rightarrow> Inl e | Inr r \<Rightarrow> Inr (char_of b # r))
          else if b < 194 \<or> 248 \<le> b then Inl URIError
          else if b = 194 \<or> b = 195
          then (case escape_byte (drop 2 cs) of
                  None \<Rightarrow> Inl URIError
                | Some b' \<Rightarrow>
                    if 128 \<le> b' \<and> b' < 192
                    then (case ref_decodeURIComponent (drop 5 cs) of
                            Inl e \<Rightarrow> Inl e
                          | Inr r \<Rightarrow> Inr (char_of ((b - 192) * 64 + (b' - 128)) # r))
                    else Inl URIError)
          else outside_model)"

subsection \<open>base64\<close>

definition b64_alphabet :: string where
  "b64_alphabet = ''ABCDEFGHIJKLMNOPQRSTUVWXYZabcdefghijklmnopqrstuvwxyz0123456789+/''"

definition b64_char :: "nat \<Rightarrow> char" where
  "b64_char n = b64_alphabet ! (n mod 64)"

fun b64_encode_bytes :: "nat list \<Rightarrow> string" where
  "b64_encode_bytes [] = []"
| "b64_encode_bytes [a] = [b64_char (a div 4), b64_char ((a mod 4) * 16), CHR ''='', CHR ''='']"
| "b64_encode_bytes [a, b] =
     [b64_char (a div 4), b64_char ((a mod 4) * 16 + b div 16), b64_char ((b mod 16) * 4),
      CHR ''='']"
| "b64_encode_bytes (a # b # c # rest) =
     [b64_char (a div 4), b64_char ((a mod 4) * 16 + b div 16),
      b64_char ((b mod 16) * 4 + c div 64), b64_char (c mod 64)] @ b64_encode_bytes rest"

definition ref_b64Encode :: "string \<Rightarrow> string" where
  "ref_b64Encode s = b64_encode_bytes (map code s)"

definition b64_index :: "char \<Rightarrow> nat" where
  "b64_index c = length (takeWhile (\<lambda>x. x \<noteq> c) b64_alphabet)"

fun b64_decode_symbols :: "nat list \<Rightarrow> nat list" where
  "b64_decode_symbols (a # b # c # d # rest) =
     [a * 4 + b div 16, (b mod 16) * 16 + c div 4, (c mod 4) * 64 + d] @ b64_decode_symbols rest"
| "b64_decode_symbols [a, b, c] = [a * 4 + b div 16, (b mod 16) * 16 + c div 4]"
| "b64_decode_symbols [a, b] = [a * 4 + b div 16]"
| "b64_decode_symbols [a] = []"
| "b64_decode_symbols [] = []"

definition is_b64_space :: "char \<Rightarrow> bool" where
  "is_b64_space c = (code c \<in> set [9, 10, 12, 13, 32])"

text \<open>The regular expression \<^verbatim>\<open>/==?$/\<close>: one or two \<open>=\<close> at the end.\<close>

definition strip_b64_padding :: "string \<Rightarrow> string" where
  "strip_b64_padding s =
     (if length s \<ge> 2 \<and> drop (length s - 2) s = ''=='' then take (length s - 2) s
      else if length s \<ge> 1 \<and> drop (length s - 1) s = ''='' then take (length s - 1) s
      else s)"

definition InvalidCharacterError :: jserror where
  "InvalidCharacterError =
     JSError ''InvalidCharacterError''
       ''Invalid character: the string to be decoded is not correctly encoded.''"

definition ref_b64Decode :: "string \<Rightarrow> jserror + string" where
  "ref_b64Decode input =
     (let s0 = filter (\<lambda>c. \<not> is_b64_space c) input;
          s = (if length s0 mod 4 = 0 then strip_b64_padding s0 else s0)
      in if length s mod 4 \<noteq> 1 \<and> list_all (\<lambda>c. c \<in> set b64_alphabet) s
         then Inr (map char_of (b64_decode_symbols (map b64_index s)))
         else Inl InvalidCharacterError)"

subsection \<open>Hosts\<close>

text \<open>
  The IPv4 number parser, the ends-in-a-number checker, the IPv4 parser and the IPv4
  serializer of the URL Standard. Numbers are \<open>int\<close>.
\<close>

definition is_radix_digit :: "int \<Rightarrow> char \<Rightarrow> bool" where
  "is_radix_digit radix c =
     (if radix = 16 then is_hex c
      else if radix = 8 then 48 \<le> code c \<and> code c \<le> 55
      else is_digit c)"

definition ipv4_number :: "string \<Rightarrow> int option" where
  "ipv4_number input =
     (if input = [] then None
      else
        let hex = (2 \<le> length input \<and> map ascii_lower (take 2 input) = ''0x'');
            oct = (2 \<le> length input \<and> hd input = CHR ''0'' \<and> map ascii_lower (take 2 input) \<noteq> ''0x'');
            digits = (if hex then drop 2 input else if oct then drop 1 input else input);
            radix = (if hex then 16 else if oct then 8 else 10)
        in if digits = [] then Some 0
           else if list_all (is_radix_digit radix) digits then Some (digits_val radix digits)
           else None)"

definition ends_in_number :: "string \<Rightarrow> bool" where
  "ends_in_number input =
     (let parts0 = split_on CHR ''.'' input;
          parts = (if last parts0 = [] then butlast parts0 else parts0)
      in if parts = [] then False
         else if last parts \<noteq> [] \<and> list_all is_digit (last parts) then True
         else (case ipv4_number (last parts) of None \<Rightarrow> False | Some n \<Rightarrow> True))"

definition ipv4_parse :: "string \<Rightarrow> int option" where
  "ipv4_parse input =
     (let parts0 = split_on CHR ''.'' input;
          parts = (if last parts0 = [] \<and> 1 < length parts0 then butlast parts0 else parts0);
          numbers = map ipv4_number parts
      in if 4 < length parts then None
         else if None \<in> set numbers then None
         else
           let ns = map the numbers in
           if list_ex (\<lambda>n. 255 < n) (butlast ns) then None
           else if 256 ^ (5 - length ns) \<le> last ns then None
           else Some (last ns +
                      sum_list (map (\<lambda>i. (ns ! i) * 256 ^ (3 - i)) [0..<length ns - 1])))"

definition ipv4_serialize :: "int \<Rightarrow> string" where
  "ipv4_serialize n =
     dec_digits (n div 16777216) @ ''.'' @ dec_digits (n div 65536 mod 256) @ ''.'' @
     dec_digits (n div 256 mod 256) @ ''.'' @ dec_digits (n mod 256)"

text \<open>
  The IPv6 parser and serializer of the URL Standard. \<open>address\<close> holds the pieces read
  so far (the standard's \<open>pieceIndex\<close> is its length) and \<open>compress\<close> the index after
  a \<open>::\<close>. An IPv4 address inside an IPv6 address is left unspecified.
\<close>

function ipv6_loop ::
  "string \<Rightarrow> int list \<Rightarrow> nat option \<Rightarrow> (int list \<times> nat option) option" where
  "ipv6_loop s address compress =
     (case s of
        [] \<Rightarrow> Some (address, compress)
      | c # cs \<Rightarrow>
          if length address = 8 then None
          else if c = CHR '':'' then
            (case compress of
               Some k \<Rightarrow> None
             | None \<Rightarrow> ipv6_loop cs (address @ [0]) (Some (length address + 1)))
          else
            let hex = takeWhile is_hex (take 4 s);
                rest = drop (length hex) s
            in if hex = [] then None
               else (case rest of
                       [] \<Rightarrow> Some (address @ [digits_val 16 hex], compress)
                     | d # ds \<Rightarrow>
                         if d = CHR ''.'' then outside_model
                         else if d = CHR '':'' \<and> ds \<noteq> []
                         then ipv6_loop ds (address @ [digits_val 16 hex]) compress
                         else None))"
  by pat_completeness auto
termination
proof (relation "measure (\<lambda>(s, address, compress). length s)", goal_cases)
  case 1
  show ?case by simp
next
  case (2 s address compress c cs)
  then show ?case by simp
next
  case (3 s address compress c cs hex rest d ds)
  from \<open>rest = d # ds\<close> \<open>rest = drop (length hex) s\<close>
  have "length (drop (length hex) s) = length (d # ds)" by (simp only:)
  then have "length ds < length s" by simp
  then show ?case by simp
qed

declare ipv6_loop.simps [simp del]

definition ipv6_parse :: "string \<Rightarrow> int list option" where
  "ipv6_parse input =
     (let start =
            (if input \<noteq> [] \<and> hd input = CHR '':''
             then (if take 2 input = ''::'' then ipv6_loop (drop 2 input) [0] (Some 1) else None)
             else ipv6_loop input [] None)
      in case start of
           None \<Rightarrow> None
         | Some (address, compress) \<Rightarrow>
             (case compress of
                Some k \<Rightarrow>
                  Some (take k address @ replicate (8 - length address) 0 @ drop k address)
              | None \<Rightarrow> if length address = 8 then Some address else None))"

function hex_digits :: "int \<Rightarrow> string" where
  "hex_digits i =
     (if i < 16 then [lower_hex_digit (nat i)]
      else hex_digits (i div 16) @ [lower_hex_digit (nat (i mod 16))])"
  by pat_completeness auto
termination
  by (relation "measure nat") auto

declare hex_digits.simps [simp del]

fun join_with :: "string \<Rightarrow> string list \<Rightarrow> string" where
  "join_with sep [] = []"
| "join_with sep [x] = x"
| "join_with sep (x # y # ys) = x @ sep @ join_with sep (y # ys)"

text \<open>The first longest run of two or more zero pieces: its start and its length.\<close>

definition ipv6_compress :: "int list \<Rightarrow> (nat \<times> nat) option" where
  "ipv6_compress address =
     (let runs = map (\<lambda>i. (i, length (takeWhile (\<lambda>x. x = 0) (drop i address))))
                   [0..<length address];
          best = foldl (\<lambda>b r. if snd b < snd r then r else b) (0, 0) runs
      in if 2 \<le> snd best then Some best else None)"

definition ipv6_serialize :: "int list \<Rightarrow> string" where
  "ipv6_serialize address =
     (case ipv6_compress address of
        None \<Rightarrow> join_with '':'' (map hex_digits address)
      | Some (i, n) \<Rightarrow>
          join_with '':'' (map hex_digits (take i address)) @ ''::'' @
          join_with '':'' (map hex_digits (drop (i + n) address)))"

text \<open>
  The host parser for a special scheme, returning the serialized host. A domain of
  ASCII characters with no label that begins with \<open>xn--\<close> is lower-cased by
  domain-to-ASCII (which checks neither hyphens nor lengths); any other domain goes
  through Unicode's IDNA processing, which is left unspecified.
\<close>

definition forbidden_domain_code_point :: "nat \<Rightarrow> bool" where
  "forbidden_domain_code_point n =
     (n \<le> 32 \<or> n = 127 \<or> n \<in> set [35, 37, 47, 58, 60, 62, 63, 64, 91, 92, 93, 94, 124])"

definition has_xn_label :: "string \<Rightarrow> bool" where
  "has_xn_label d = list_ex (\<lambda>l. map ascii_lower (take 4 l) = ''xn--'') (split_on CHR ''.'' d)"

definition host_parse :: "string \<Rightarrow> string option" where
  "host_parse input =
     (if input \<noteq> [] \<and> hd input = CHR ''[''
      then (if last input = CHR '']''
            then map_option (\<lambda>a. ''['' @ ipv6_serialize a @ '']'') (ipv6_parse (butlast (tl input)))
            else None)
      else
        let bytes = percent_decode input in
        if list_ex (\<lambda>b. 128 \<le> b) bytes then outside_model
        else
          let domain = map char_of bytes in
          if has_xn_label domain then outside_model
          else
            let asciiDomain = map ascii_lower domain in
            if asciiDomain = [] then None
            else if list_ex (\<lambda>c. forbidden_domain_code_point (code c)) asciiDomain then None
            else if ends_in_number asciiDomain
            then map_option ipv4_serialize (ipv4_parse asciiDomain)
            else Some asciiDomain)"

subsection \<open>URL\<close>

text \<open>
  The basic URL parser of the URL Standard on the inputs the source gives it, which all
  begin with \<^verbatim>\<open>http://\<close>: the scheme is special, with default port 80, and there is no
  base URL. Leading and trailing C0 controls and spaces are removed, then every tab
  and newline. After \<^verbatim>\<open>http:\<close> all slashes and backslashes are skipped; the authority
  runs to the next slash, backslash, \<open>?\<close> or \<open>#\<close>; in it, what stands before the last
  \<open>@\<close> is the credentials (the user name ending at their first colon); the host ends
  at the first colon outside square brackets, and the port follows. The path never
  fails and is not read by the source. An input with another scheme is left
  unspecified.
\<close>

definition is_c0_or_space :: "char \<Rightarrow> bool" where
  "is_c0_or_space c = (code c \<le> 32)"

definition is_tab_or_newline :: "char \<Rightarrow> bool" where
  "is_tab_or_newline c = (code c \<in> set [9, 10, 13])"

definition is_slash :: "char \<Rightarrow> bool" where
  "is_slash c = (code c \<in> set [47, 92])"

definition in_authority :: "char \<Rightarrow> bool" where
  "in_authority c = (code c \<notin> set [47, 92, 63, 35])"

fun split_host_port :: "string \<Rightarrow> bool \<Rightarrow> string \<Rightarrow> string \<times> string option" where
  "split_host_port [] insideBrackets buffer = (buffer, None)"
| "split_host_port (c # cs) insideBrackets buffer =
     (if c = CHR '':'' \<and> \<not> insideBrackets then (buffer, Some cs)
      else split_host_port cs
             (if c = CHR ''['' then True else if c = CHR '']'' then False else insideBrackets)
             (buffer @ [c]))"

text \<open>The port state, and the \<^verbatim>\<open>port\<close> getter: the default port reads as the empty string.\<close>

definition port_parse :: "string \<Rightarrow> string option" where
  "port_parse buffer =
     (if list_all is_digit buffer
      then (if buffer = [] then Some []
            else
              let p = digits_val 10 buffer in
              if 65535 < p then None
              else if p = 80 then Some []
              else Some (dec_digits p))
      else None)"

definition urlencoded_decode :: "string \<Rightarrow> string" where
  "urlencoded_decode s =
     utf8_decode (percent_decode (map (\<lambda>c. if c = CHR ''+'' then CHR '' '' else c) s))"

definition urlencoded_parse :: "string \<Rightarrow> (string \<times> string) list" where
  "urlencoded_parse query =
     map (\<lambda>seq. (urlencoded_decode (takeWhile (\<lambda>c. c \<noteq> CHR ''='') seq),
                 urlencoded_decode (drop 1 (dropWhile (\<lambda>c. c \<noteq> CHR ''='') seq))))
       (filter (\<lambda>seq. seq \<noteq> []) (split_on CHR ''&'' query))"

definition Invalid_URL :: jserror where
  "Invalid_URL = JSError ''TypeError'' ''Invalid URL''"

definition ref_URL :: "string \<Rightarrow> jserror + url" where
  "ref_URL input0 =
     (let trimmed = rev (dropWhile is_c0_or_space (rev (dropWhile is_c0_or_space input0)));
          input = filter (\<lambda>c. \<not> is_tab_or_newline c) trimmed
      in if startsWith input ''http:''
         then
           let rest = dropWhile is_slash (drop 5 input);
               authority = takeWhile in_authority rest;
               tail = dropWhile in_authority rest;
               hostport = rev (takeWhile (\<lambda>c. c \<noteq> CHR ''@'') (rev authority));
               credentials = take (length authority - length hostport - 1) authority;
               username = percent_encode userinfo_set (takeWhile (\<lambda>c. c \<noteq> CHR '':'') credentials);
               hp = split_host_port hostport False [];
               afterPath = dropWhile (\<lambda>c. c \<noteq> CHR ''?'' \<and> c \<noteq> CHR ''#'') tail;
               hasQuery = (afterPath \<noteq> [] \<and> hd afterPath = CHR ''?'');
               query = (if hasQuery then takeWhile (\<lambda>c. c \<noteq> CHR ''#'') (tl afterPath) else []);
               afterQuery = (if hasQuery then dropWhile (\<lambda>c. c \<noteq> CHR ''#'') (tl afterPath)
                             else afterPath);
               fragment = percent_encode fragment_set (drop 1 afterQuery)
           in if fst hp = [] then Inl Invalid_URL
              else case host_parse (fst hp) of
                None \<Rightarrow> Inl Invalid_URL
              | Some hostname \<Rightarrow>
                  (case (case snd hp of None \<Rightarrow> Some [] | Some buffer \<Rightarrow> port_parse buffer) of
                     None \<Rightarrow> Inl Invalid_URL
                   | Some p \<Rightarrow>
                       Inr \<lparr> url_hostname = hostname, url_port = p,
                             url_username = username,
                             url_hash = (if fragment = [] then [] else CHR ''#'' # fragment),
                             url_searchParams =
                               Some (urlencoded_parse (percent_encode special_query_set query)) \<rparr>)
         else outside_model)"

text \<open>
  Every code unit of a string of the model is below 256, so the encoder of the reference
  platform returns a string for each of them.
\<close>

definition reference :: platform where
  "reference =
     \<lparr> URL = ref_URL, b64Encode = (\<lambda>s. Inr (ref_b64Encode s)), b64Decode = ref_b64Decode,
       encodeURIComponent = ref_encodeURIComponent,
       decodeURIComponent = ref_decodeURIComponent \<rparr>"

section \<open>The specification's notions\<close>

text \<open>
  The specification's words for the serializers, written as definitions of their own:
  base64 output with all trailing \<open>=\<close> removed, the tag fragment (\<open>#\<close> and the
  percent-encoded tag when the tag is not empty), and the query string (\<open>?plugin=\<close>
  and the percent-encoded plugin when a plugin is present).
\<close>

definition strip_trailing_equals :: "string \<Rightarrow> string" where
  "strip_trailing_equals s = rev (dropWhile (\<lambda>c. c = CHR ''='') (rev s))"

definition tagFragment :: "platform \<Rightarrow> string \<Rightarrow> string" where
  "tagFragment P t = (if t = [] then [] else ''#'' @ encodeURIComponent P t)"

definition queryString :: "platform \<Rightarrow> string \<Rightarrow> string" where
  "queryString P p = (if p = [] then [] else ''?plugin='' @ encodeURIComponent P p)"

text \<open>A plugin value that is absent (empty) or that percent-encoding leaves as it is.\<close>

definition plugin_unchanged :: "platform \<Rightarrow> string \<Rightarrow> bool" where
  "plugin_unchanged P p = (if p = [] then True else encodeURIComponent P p = p)"

text \<open>
  A \<^verbatim>\<open>Config\<close> whose host and port, validated again from their data, come out the
  same. The URI classes validate the fields of the \<^verbatim>\<open>Config\<close> they are given again.
\<close>

definition revalidates :: "platform \<Rightarrow> 'a Config_scheme \<Rightarrow> bool" where
  "revalidates P c =
     (new_Host P (Str (Config_host c)) = Inr (host_field c) \<and>
      new_Port P (PStr (Config_port c)) = Inr (port_field c))"

text \<open>The order of the URI classes as the specification gives it.\<close>

definition claimed_order :: "UriType list" where
  "claimed_order = [Sip002URI, LegacyBase64URI]"

section \<open>Helper lemmas\<close>

lemma bind_Inr_iff: "bind m f = Inr y \<longleftrightarrow> (\<exists>x. m = Inr x \<and> f x = Inr y)"
  by (cases m) (simp_all add: bind_def)

lemma sublist_mid: "sublist x (a @ x @ b)"
  by (auto simp: sublist_def)

lemma or_default_sublist: "sublist s (a @ or_default s d @ b)"
  by (cases "s = []") (auto simp: or_default_def sublist_def)

subsection \<open>The padding loop\<close>

lemma paddingLength_loop_eq:
  "k \<le> length (takeWhile (\<lambda>c. c = CHR ''='') (rev s)) \<Longrightarrow>
   paddingLength_loop s k = length (takeWhile (\<lambda>c. c = CHR ''='') (rev s))"
proof (induction s k rule: paddingLength_loop.induct)
  case (1 b64 k)
  let ?p = "\<lambda>c. c = CHR ''=''"
  let ?n = "length (takeWhile ?p (rev b64))"
  have n_le: "?n \<le> length b64"
    using length_takeWhile_le [of ?p "rev b64"] by simp
  show ?case
  proof (cases "k < length b64 \<and> b64 ! (length b64 - 1 - k) = CHR ''=''")
    case True
    then have kl: "k < length b64" and eq: "rev b64 ! k = CHR ''=''"
      by (simp_all add: rev_nth)
    have "Suc k \<le> ?n"
    proof (rule length_takeWhile_less_P_nth)
      fix i assume "i < Suc k"
      then consider "i < k" | "i = k" by linarith
      then show "rev b64 ! i = CHR ''=''"
      proof cases
        case 1
        with "1.prems" have "i < ?n" by simp
        then have "takeWhile ?p (rev b64) ! i = rev b64 ! i" by (rule takeWhile_nth)
        moreover have "takeWhile ?p (rev b64) ! i \<in> set (takeWhile ?p (rev b64))"
          using \<open>i < ?n\<close> by simp
        ultimately show ?thesis by (auto dest: set_takeWhileD)
      next
        case 2
        with eq show ?thesis by simp
      qed
    next
      show "Suc k \<le> length (rev b64)" using kl by simp
    qed
    with "1.IH" True have "paddingLength_loop b64 (k + 1) = ?n" by simp
    moreover have "paddingLength_loop b64 k = paddingLength_loop b64 (k + 1)"
      using True by (subst paddingLength_loop.simps) auto
    ultimately show ?thesis by simp
  next
    case False
    have "k = ?n"
    proof (rule ccontr)
      assume "k \<noteq> ?n"
      with "1.prems" have lt: "k < ?n" by simp
      then have "takeWhile ?p (rev b64) ! k = rev b64 ! k" by (rule takeWhile_nth)
      moreover have "takeWhile ?p (rev b64) ! k \<in> set (takeWhile ?p (rev b64))"
        using lt by simp
      ultimately have "rev b64 ! k = CHR ''=''" by (auto dest: set_takeWhileD)
      moreover have "k < length b64" using lt n_le by simp
      ultimately show False using False by (simp add: rev_nth)
    qed
    moreover have "paddingLength_loop b64 k = k"
      using False by (subst paddingLength_loop.simps) auto
    ultimately show ?thesis by simp
  qed
qed

lemma substring_0: "0 \<le> b \<Longrightarrow> b \<le> int (length s) \<Longrightarrow> substring s 0 b = take (nat b) s"
  by (simp add: substring_def Let_def min_def max_def)

lemma strip_padding_spec: "strip_padding s = strip_trailing_equals s"
proof -
  let ?p = "\<lambda>c. c = CHR ''=''"
  let ?n = "length (takeWhile ?p (rev s))"
  have n_le: "?n \<le> length s"
    using length_takeWhile_le [of ?p "rev s"] by simp
  have loop: "paddingLength_loop s 0 = ?n"
    by (rule paddingLength_loop_eq) simp
  have spec: "strip_trailing_equals s = take (length s - ?n) s"
    by (simp add: strip_trailing_equals_def dropWhile_eq_drop rev_drop)
  show ?thesis
  proof (cases "?n = 0")
    case True
    with loop spec show ?thesis by (simp add: strip_padding_def)
  next
    case False
    have "substring s 0 (int (length s) - int ?n) = take (nat (int (length s) - int ?n)) s"
      using n_le by (intro substring_0) simp_all
    also have "nat (int (length s) - int ?n) = length s - ?n" by simp
    finally show ?thesis using False loop spec by (simp add: strip_padding_def Let_def)
  qed
qed

subsection \<open>Fields and Config\<close>

lemma new_Method_Inr_iff:
  "new_Method m = Inr f \<longleftrightarrow>
     (\<exists>s. unwrap Method_data m = Some s \<and> s \<in> set METHODS \<and> f = MkMethod s)"
  by (auto simp: new_Method_def Let_def split: option.splits)

lemma new_Config_Inr_iff:
  "new_Config P config = Inr c \<longleftrightarrow>
     new_Host P (host config) = Inr (host_field c) \<and>
     new_Port P (port config) = Inr (port_field c) \<and>
     new_Method (method config) = Inr (method_field c) \<and>
     password_field c = new_Password (password config) \<and>
     tag_field c = new_Tag (tag config)"
  by (cases c) (auto simp: new_Config_def bind_Inr_iff)

text \<open>The first field that fails decides the error of the construction.\<close>

lemma new_Config_host_error:
  "new_Host P (host config) = Inl e \<Longrightarrow> new_Config P config = Inl e"
  by (simp add: new_Config_def bind_def)

lemma new_Config_port_error:
  "new_Host P (host config) = Inr h \<Longrightarrow> new_Port P (port config) = Inl e \<Longrightarrow>
   new_Config P config = Inl e"
  by (simp add: new_Config_def bind_def)

lemma new_Config_method_error:
  "new_Host P (host config) = Inr h \<Longrightarrow> new_Port P (port config) = Inr p \<Longrightarrow>
   new_Method (method config) = Inl e \<Longrightarrow> new_Config P config = Inl e"
  by (simp add: new_Config_def bind_def)

text \<open>Validating the data of a method, password, tag or plugin again changes nothing.\<close>

lemma simple_fields_idempotent:
  "new_Method x = Inr m \<Longrightarrow> new_Method (Str (Method_data m)) = Inr m"
  "new_Password (Str (Password_data (new_Password y))) = new_Password y"
  "new_Tag (Str (Tag_data (new_Tag z))) = new_Tag z"
  "new_Plugin (Str (Plugin_data (new_Plugin w))) = new_Plugin w"
  by (auto simp: new_Method_Inr_iff new_Password_def new_Tag_def new_Plugin_def unwrap_def
      or_empty_def)

lemma new_Config_again:
  assumes "new_Config P raw = Inr c" and "revalidates P c"
  shows "new_Config P (as_UnsafeConfig c) = Inr c"
proof -
  from assms(1) have m: "new_Method (method raw) = Inr (method_field c)"
    by (simp add: new_Config_Inr_iff)
  then have "new_Method (Str (Config_method c)) = Inr (method_field c)"
    by (auto simp: new_Method_Inr_iff Config_method_def unwrap_def)
  with assms(2) show ?thesis
    by (simp add: new_Config_Inr_iff as_UnsafeConfig_def revalidates_def new_Password_def
        new_Tag_def unwrap_def or_empty_def Config_password_def Config_tag_def)
qed

lemma getHash_as_UnsafeConfig:
  "getHash P (as_UnsafeConfig c) = tagFragment P (Config_tag c)"
  by (simp add: getHash_def as_UnsafeConfig_def unwrap_def tagFragment_def)

lemma Config_getters_extend [simp]:
  "Config_host (Config.extend c x) = Config_host c"
  "Config_port (Config.extend c x) = Config_port c"
  "Config_method (Config.extend c x) = Config_method c"
  "Config_password (Config.extend c x) = Config_password c"
  "Config_tag (Config.extend c x) = Config_tag c"
  by (simp_all add: Config.extend_def Config_host_def Config_port_def Config_method_def
      Config_password_def Config_tag_def)

lemma b64EncodedData_extend [simp]:
  "b64EncodedData (Config.extend c (LegacyBase64URI.fields d)) = d"
  by (simp add: Config.extend_def LegacyBase64URI.fields_def)

lemma Sip002_extend [simp]:
  "b64EncodedUserInfo (Config.extend c (Sip002URI.fields d g)) = d"
  "Sip002URI_plugin (Config.extend c (Sip002URI.fields d g)) = Plugin_data g"
  by (simp_all add: Config.extend_def Sip002URI.fields_def Sip002URI_plugin_def)

lemma platform_call_Inr_iff [simp]: "platform_call r = Inr x \<longleftrightarrow> r = Inr x"
  by (cases r) (simp_all add: platform_call_def)

lemma new_LegacyBase64URI_Inr:
  assumes "new_LegacyBase64URI P config = Inr u"
  shows "\<exists>d. b64Encode P (Config_method u @ '':'' @ Config_password u @ ''@'' @
               Config_host u @ '':'' @ Config_port u) = Inr d \<and>
             b64EncodedData u = strip_padding d"
proof -
  from assms obtain c d where
    u: "u = Config.extend c (LegacyBase64URI.fields (strip_padding d))" and
    d: "b64Encode P (Config_method c @ '':'' @ Config_password c @ ''@'' @
          Config_host c @ '':'' @ Config_port c) = Inr d"
    by (auto simp: new_LegacyBase64URI_def bind_Inr_iff)
  from d show ?thesis by (simp add: u)
qed

lemma new_Sip002URI_Inr:
  assumes "new_Sip002URI P config = Inr u"
  shows "b64Encode P (Config_method u @ '':'' @ Config_password u) = Inr (b64EncodedUserInfo u)"
proof -
  from assms obtain c d g where
    u: "u = Config.extend c (Sip002URI.fields d g)" and
    d: "b64Encode P (Config_method c @ '':'' @ Config_password c) = Inr d"
    by (auto simp: new_Sip002URI_def bind_Inr_iff)
  from d show ?thesis by (simp add: u)
qed

lemma Sip002URI_toString_raw:
  "Sip002URI_toString P u =
     ''ss://'' @ b64EncodedUserInfo u @ ''@'' @ Config_host u @ '':'' @ Config_port u @ ''/'' @
     (if Sip002URI_plugin u = [] then [] else ''?plugin='' @ Sip002URI_plugin u) @
     tagFragment P (Config_tag u)"
  by (simp add: Sip002URI_toString_def Let_def getHash_as_UnsafeConfig)

lemma queryString_unchanged:
  "plugin_unchanged P p \<Longrightarrow> (if p = [] then [] else ''?plugin='' @ p) = queryString P p"
  by (simp add: queryString_def plugin_unchanged_def split: if_splits)

subsection \<open>The legacy parser\<close>

text \<open>
  What \<^verbatim>\<open>LegacyBase64URI.parse\<close> reads from a URI whose base64 text holds no \<open>#\<close> and
  decodes to \<open>method:password@host:port\<close>, when the method and the password hold no
  \<open>@\<close> and the method and the host hold no colon: the search for the first \<open>@\<close> and for
  the first colon on each side of it then finds the delimiters the serializer wrote.
\<close>

lemma indexOf_absent: "c \<notin> set s \<Longrightarrow> indexOf s c = - 1"
  by (simp add: indexOf_def)

lemma indexOf_first: "c \<notin> set xs \<Longrightarrow> indexOf (xs @ c # ys) c = int (length xs)"
proof -
  assume a: "c \<notin> set xs"
  then have "takeWhile (\<lambda>x. x \<noteq> c) (xs @ c # ys) = xs"
    by (induction xs) auto
  then show ?thesis by (simp add: indexOf_def)
qed

lemma substring_prefix: "substring (xs @ ys) 0 (int (length xs)) = xs"
  by (simp add: substring_def Let_def min_def max_def)

lemma substring_from_suffix: "substring_from (xs @ ys) (int (length xs)) = ys"
  by (simp add: substring_from_def substring_def Let_def min_def max_def)

lemma substring_from_suffix1: "substring_from (xs @ c # ys) (int (length xs) + 1) = ys"
  using substring_from_suffix [of "xs @ [c]" ys] by (simp add: add.commute)

lemma substring_from_end: "substring_from s (int (length s)) = []"
  by (simp add: substring_from_def substring_def Let_def)

lemma substring_middle:
  "substring (xs @ ys @ zs) (int (length xs)) (int (length xs) + int (length ys)) = ys"
  by (simp add: substring_def Let_def min_def max_def)

lemma METHODS_chars:
  "m \<in> set METHODS \<Longrightarrow> CHR ''@'' \<notin> set m \<and> CHR '':'' \<notin> set m"
  by (auto simp: METHODS_def)


lemma startsWith_append: "startsWith (p @ s) p"
  by (simp add: startsWith_def)

lemma legacy_parse_shape:
  assumes nohash: "CHR ''#'' \<notin> set B"
    and frag: "F = [] \<or> hd F = CHR ''#''"
    and tagdec: "decodeURIComponent P (drop 1 F) = Inr t"
    and b64: "b64Decode P B = Inr (m @ '':'' @ pw @ ''@'' @ h @ '':'' @ p)"
    and m_at: "CHR ''@'' \<notin> set m" and m_colon: "CHR '':'' \<notin> set m"
    and pw_at: "CHR ''@'' \<notin> set pw" and h_colon: "CHR '':'' \<notin> set h"
    and meth: "new_Method (Str m) = Inr mf"
    and hst: "new_Host P (Str h) = Inr hf"
    and prt: "new_Port P (PStr p) = Inr pf"
  shows "LegacyBase64URI_parse P (''ss://'' @ B @ F) =
           new_LegacyBase64URI P
             \<lparr> host = Inst hf, port = PInst pf, method = Inst mf,
               password = Inst (MkPassword pw), tag = Inst (MkTag t), plugin = Undefined \<rparr>"
proof -
  let ?uri = "''ss://'' @ B @ F"
  let ?s = "m @ '':'' @ pw @ ''@'' @ h @ '':'' @ p"
  have proto: "validateProtocol ?uri = Inr ()"
    using startsWith_append [of "''ss://''" "B @ F"] by (simp add: validateProtocol_def)
  have nohash': "CHR ''#'' \<notin> set (''ss://'' @ B)"
    using nohash by simp
  have tagtext:
    "substring_from ?uri
       (if indexOf ?uri CHR ''#'' = - 1 then int (length ?uri) else indexOf ?uri CHR ''#'' + 1) =
     drop 1 F"
  proof (cases F)
    case Nil
    then have "indexOf ?uri CHR ''#'' = - 1" using nohash' by (simp add: indexOf_absent)
    with Nil show ?thesis using substring_from_end [of "''ss://'' @ B"] by simp
  next
    case (Cons a enc)
    with frag have a: "a = CHR ''#''" by simp
    have i: "indexOf ?uri CHR ''#'' = int (length (''ss://'' @ B))"
      using indexOf_first [OF nohash', of enc] Cons a by simp
    show ?thesis
      using substring_from_suffix1 [of "''ss://'' @ B" "CHR ''#''" enc] Cons a i by simp
  qed
  have b64text:
    "substring ?uri (int (length ''ss://''))
       (if indexOf ?uri CHR ''#'' = - 1 then int (length ?uri) else indexOf ?uri CHR ''#'') = B"
  proof (cases F)
    case Nil
    then have "indexOf ?uri CHR ''#'' = - 1" using nohash' by (simp add: indexOf_absent)
    with Nil show ?thesis using substring_middle [of "''ss://''" B "[]"] by simp
  next
    case (Cons a enc)
    with frag have a: "a = CHR ''#''" by simp
    have i: "indexOf ?uri CHR ''#'' = int (length (''ss://'' @ B))"
      using indexOf_first [OF nohash', of enc] Cons a by simp
    show ?thesis
      using substring_middle [of "''ss://''" B F] i by simp
  qed
  have at: "indexOf ?s CHR ''@'' = int (length (m @ '':'' @ pw))"
    using indexOf_first [of "CHR ''@''" "m @ '':'' @ pw" "h @ '':'' @ p"] m_at pw_at by simp
  have mp: "substring ?s 0 (int (length (m @ '':'' @ pw))) = m @ '':'' @ pw"
    using substring_prefix [of "m @ '':'' @ pw" "''@'' @ h @ '':'' @ p"] by simp
  have mend: "indexOf (m @ '':'' @ pw) CHR '':'' = int (length m)"
    using indexOf_first [of "CHR '':''" m pw] m_colon by simp
  have mstr: "substring (m @ '':'' @ pw) 0 (int (length m)) = m"
    using substring_prefix [of m "'':'' @ pw"] by simp
  have pstr: "substring_from (m @ '':'' @ pw) (int (length m) + 1) = pw"
    using substring_from_suffix1 [of m "CHR '':''" pw] by simp
  have hp: "substring_from ?s (int (length (m @ '':'' @ pw)) + 1) = h @ '':'' @ p"
    using substring_from_suffix1 [of "m @ '':'' @ pw" "CHR ''@''" "h @ '':'' @ p"] by simp
  have hend: "indexOf (h @ '':'' @ p) CHR '':'' = int (length h)"
    using indexOf_first [of "CHR '':''" h p] h_colon by simp
  have hstr: "substring (h @ '':'' @ p) 0 (int (length h)) = h"
    using substring_prefix [of h "'':'' @ p"] by simp
  have portstr: "substring_from (h @ '':'' @ p) (int (length h) + 1) = p"
    using substring_from_suffix1 [of h "CHR '':''" p] by simp
  show ?thesis
    unfolding LegacyBase64URI_parse_def Let_def
    by (simp only: proto tagtext b64text tagdec b64 at mp mend mstr pstr hp hend hstr portstr
        meth hst prt bind_def platform_call_def sum.case new_Tag_def new_Password_def
        unwrap_def raw.case or_empty_def option.case)
       simp
qed


lemma instance_as_string:
  "new_Host P (Inst hf) = new_Host P (Str (Host_data hf))"
  "new_Port P (PInst pf) = new_Port P (PStr (Port_data pf))"
  "new_Method (Inst mf) = new_Method (Str (Method_data mf))"
  "new_Password (Inst qf) = new_Password (Str (Password_data qf))"
  "new_Tag (Inst tf) = new_Tag (Str (Tag_data tf))"
  by (simp_all add: new_Host_def new_Port_def new_Method_def new_Password_def new_Tag_def
      unwrap_def port_text_def port_is_empty_string_def split: sum.splits)

lemma new_Config_instances:
  "new_Config P \<lparr> host = Inst (host_field c), port = PInst (port_field c),
       method = Inst (method_field c), password = Inst (password_field c),
       tag = Inst (tag_field c), plugin = g \<rparr> =
   new_Config P (as_UnsafeConfig c)"
  by (simp add: new_Config_def as_UnsafeConfig_def instance_as_string
      Config_host_def Config_port_def Config_method_def Config_password_def Config_tag_def)

lemma new_LegacyBase64URI_cong:
  "new_Config P a = new_Config P b \<Longrightarrow> new_LegacyBase64URI P a = new_LegacyBase64URI P b"
  by (simp add: new_LegacyBase64URI_def)

section \<open>The repository's tests on the reference platform\<close>

text \<open>
  The inputs of the repository's tests, given to the source on the reference platform.
  The hosts and ports the tests accept are accepted with the data the tests expect,
  and the ports they reject are rejected.
\<close>

lemma test_accepts_hosts:
  "new_Host reference (Str ''127.0.0.1'') = Inr (MkHost ''127.0.0.1'') \<and>
   new_Host reference (Str ''8.8.8.8'') = Inr (MkHost ''8.8.8.8'') \<and>
   new_Host reference (Str ''192.168.0.1'') = Inr (MkHost ''192.168.0.1'') \<and>
   new_Host reference (Str ''localhost'') = Inr (MkHost ''localhost'') \<and>
   new_Host reference (Str ''example.com'') = Inr (MkHost ''example.com'')"
  by code_simp

lemma test_ports:
  "new_Port reference (PStr ''8388'') = Inr (MkPort ''8388'') \<and>
   new_Port reference (PStr ''443'') = Inr (MkPort ''443'') \<and>
   new_Port reference (PNum 8388) = Inr (MkPort ''8388'') \<and>
   new_Port reference (PNum 443) = Inr (MkPort ''443'') \<and>
   new_Port reference (PStr ''01234'') = Inr (MkPort ''1234'') \<and>
   new_Port reference (PStr []) = Inl (InvalidConfigField ''Invalid port: '') \<and>
   new_Port reference (PStr ''foo'') = Inl (InvalidConfigField ''Invalid port: foo'') \<and>
   new_Port reference (PStr ''-123'') = Inl (InvalidConfigField ''Invalid port: -123'') \<and>
   new_Port reference (PStr ''123.4'') = Inl (InvalidConfigField ''Invalid port: 123.4'') \<and>
   new_Port reference (PNum (- 123)) = Inl (InvalidConfigField ''Invalid port: -123'') \<and>
   new_Port reference (PNum 65536) = Inl (InvalidConfigField ''Invalid port: 65536'')"
  by code_simp

text \<open>The tests of the parser: a SIP002 URI with a plugin, and a legacy URI.\<close>

lemma test_parse_sip002_plugin:
  "ShadowsocksURI_parse reference
     ''ss://cmM0LW1kNTpwYXNzd2Q=@192.168.100.1:8888/?plugin=obfs-local%3Bobfs%3Dhttp'' =
   Inr (Sip002 \<lparr> host_field = MkHost ''192.168.100.1'', port_field = MkPort ''8888'',
          method_field = MkMethod ''rc4-md5'', password_field = MkPassword ''passwd'',
          tag_field = MkTag [], b64EncodedUserInfo = ''cmM0LW1kNTpwYXNzd2Q='',
          plugin_field = MkPlugin ''obfs-local;obfs=http'' \<rparr>)"
  by code_simp

lemma test_parse_legacy:
  "ShadowsocksURI_parse reference ''ss://YmYtY2ZiOnRlc3RAMTkyLjE2OC4xMDAuMTo4ODg4#Foo%20Bar'' =
   Inr (Legacy \<lparr> host_field = MkHost ''192.168.100.1'', port_field = MkPort ''8888'',
          method_field = MkMethod ''bf-cfb'', password_field = MkPassword ''test'',
          tag_field = MkTag ''Foo Bar'',
          b64EncodedData = ''YmYtY2ZiOnRlc3RAMTkyLjE2OC4xMDAuMTo4ODg4'' \<rparr>)"
  by code_simp

section \<open>Round trip\<close>

text \<open>
  Away from the delimiters the legacy codec does round-trip. Let a configuration be
  accepted by the constructor, with a host and a port that the platform's URL parser
  leaves unchanged, a password without \<open>@\<close> and a host without a colon; let the platform's
  base64 decoder give back the text that was encoded, its encoding hold no \<open>#\<close>, and
  \<^verbatim>\<open>decodeURIComponent\<close> give back the tag that was encoded. Then parsing the
  serialization returns the object that was serialized. The example is the configuration
  of the repository's test of the legacy parser, on the reference platform.
\<close>

lemma legacy_roundtrip:
  assumes valid: "new_Config P raw = Inr c" and stable: "revalidates P c"
    and u: "new_LegacyBase64URI P (as_UnsafeConfig c) = Inr u"
    and b64: "b64Decode P (b64EncodedData u) =
                Inr (Config_method c @ '':'' @ Config_password c @ ''@'' @ Config_host c @
                     '':'' @ Config_port c)"
    and nohash: "CHR ''#'' \<notin> set (b64EncodedData u)"
    and tagdec: "decodeURIComponent P (drop 1 (tagFragment P (Config_tag c))) =
                   Inr (Config_tag c)"
    and pw_at: "CHR ''@'' \<notin> set (Config_password c)"
    and h_colon: "CHR '':'' \<notin> set (Config_host c)"
  shows "LegacyBase64URI_parse P (LegacyBase64URI_toString P u) = Inr u"
proof -
  have again: "new_Config P (as_UnsafeConfig c) = Inr c"
    using valid stable by (rule new_Config_again)
  from u obtain d where ud: "u = Config.extend c (LegacyBase64URI.fields d)"
    by (auto simp: new_LegacyBase64URI_def new_ShadowsocksURI_def again bind_Inr_iff)
  have str: "LegacyBase64URI_toString P u =
               ''ss://'' @ b64EncodedData u @ tagFragment P (Config_tag c)"
    by (simp add: LegacyBase64URI_toString_def getHash_as_UnsafeConfig ud)
  have frag: "tagFragment P (Config_tag c) = [] \<or> hd (tagFragment P (Config_tag c)) = CHR ''#''"
    by (simp add: tagFragment_def)
  from valid have m: "new_Method (method raw) = Inr (method_field c)"
    by (simp add: new_Config_Inr_iff)
  then have mem: "Config_method c \<in> set METHODS"
    by (auto simp: new_Method_Inr_iff Config_method_def)
  from m have meth: "new_Method (Str (Config_method c)) = Inr (method_field c)"
    by (auto simp: new_Method_Inr_iff Config_method_def unwrap_def)
  from stable have hst: "new_Host P (Str (Config_host c)) = Inr (host_field c)"
    and prt: "new_Port P (PStr (Config_port c)) = Inr (port_field c)"
    by (simp_all add: revalidates_def)
  have "LegacyBase64URI_parse P (''ss://'' @ b64EncodedData u @ tagFragment P (Config_tag c)) =
          new_LegacyBase64URI P
            \<lparr> host = Inst (host_field c), port = PInst (port_field c),
              method = Inst (method_field c), password = Inst (MkPassword (Config_password c)),
              tag = Inst (MkTag (Config_tag c)), plugin = Undefined \<rparr>"
    using nohash frag tagdec b64 METHODS_chars [OF mem, THEN conjunct1]
      METHODS_chars [OF mem, THEN conjunct2] pw_at h_colon meth hst prt
    by (rule legacy_parse_shape)
  also have "\<dots> = new_LegacyBase64URI P (as_UnsafeConfig c)"
    using new_Config_instances [of P c Undefined]
    by (intro new_LegacyBase64URI_cong) (simp add: Config_password_def Config_tag_def)
  finally show ?thesis by (simp add: str u)
qed

lemma legacy_roundtrip_example:
  "LegacyBase64URI_parse reference ''ss://YmYtY2ZiOnRlc3RAMTkyLjE2OC4xMDAuMTo4ODg4#Foo%20Bar'' =
   Inr \<lparr> host_field = MkHost ''192.168.100.1'', port_field = MkPort ''8888'',
         method_field = MkMethod ''bf-cfb'', password_field = MkPassword ''test'',
         tag_field = MkTag ''Foo Bar'',
         b64EncodedData = ''YmYtY2ZiOnRlc3RAMTkyLjE2OC4xMDAuMTo4ODg4'' \<rparr>"
proof -
  let ?raw = "\<lparr> host = Str ''192.168.100.1'', port = PStr ''8888'', method = Str ''bf-cfb'',
          password = Str ''test'', tag = Str ''Foo Bar'', plugin = Undefined \<rparr>"
  let ?c = "\<lparr> host_field = MkHost ''192.168.100.1'', port_field = MkPort ''8888'',
         method_field = MkMethod ''bf-cfb'', password_field = MkPassword ''test'',
         tag_field = MkTag ''Foo Bar'' \<rparr>"
  let ?u = "\<lparr> host_field = MkHost ''192.168.100.1'', port_field = MkPort ''8888'',
         method_field = MkMethod ''bf-cfb'', password_field = MkPassword ''test'',
         tag_field = MkTag ''Foo Bar'',
         b64EncodedData = ''YmYtY2ZiOnRlc3RAMTkyLjE2OC4xMDAuMTo4ODg4'' \<rparr>"
  have 1: "new_Config reference ?raw = Inr ?c" by code_simp
  have 2: "revalidates reference ?c" by code_simp
  have 3: "new_LegacyBase64URI reference (as_UnsafeConfig ?c) = Inr ?u" by code_simp
  have 4: "b64Decode reference (b64EncodedData ?u) =
             Inr (Config_method ?c @ '':'' @ Config_password ?c @ ''@'' @ Config_host ?c @
                  '':'' @ Config_port ?c)"
    by code_simp
  have 5: "CHR ''#'' \<notin> set (b64EncodedData ?u)" by code_simp
  have 6: "decodeURIComponent reference (drop 1 (tagFragment reference (Config_tag ?c))) =
             Inr (Config_tag ?c)"
    by code_simp
  have 7: "CHR ''@'' \<notin> set (Config_password ?c)" by code_simp
  have 8: "CHR '':'' \<notin> set (Config_host ?c)" by code_simp
  have 9: "LegacyBase64URI_toString reference ?u =
             ''ss://YmYtY2ZiOnRlc3RAMTkyLjE2OC4xMDAuMTo4ODg4#Foo%20Bar''"
    by code_simp
  note t = legacy_roundtrip [OF 1 2 3 4 5 6 7 8]
  from t [unfolded 9] show ?thesis .
qed

text \<open>
  Claim C1. The specification asks that parsing what a codec serialized gives back the
  host, port, method, password and tag. The legacy parser splits the decoded text at its
  first \<open>@\<close> and the host from the port at the first colon. So a password that
  contains \<open>@\<close> does not come back: on the reference platform the configuration with
  host 192.168.100.1, port 8888, method chacha20 and password \<open>P@$$W0RD!\<close> is
  serialized, and parsing the result succeeds with the password \<open>P\<close>. And an IPv6
  host does not come back: parsing the serialization fails on the host \<open>[2001\<close>, as
  parsing the URI of the repository's test of a legacy URI with an IPv6 host does.
\<close>

theorem legacy_roundtrip_password_at:
  "bind (new_LegacyBase64URI reference
           \<lparr> host = Str ''192.168.100.1'', port = PNum 8888, method = Str ''chacha20'',
             password = Str ''P@$$W0RD!'', tag = Undefined, plugin = Undefined \<rparr>)
     (\<lambda>u. map_sum id Config_password
            (LegacyBase64URI_parse reference (LegacyBase64URI_toString reference u))) =
   Inr ''P'' \<and>
   bind (new_LegacyBase64URI reference
           \<lparr> host = Str ''[2001:0:ce49:7601:e866:efff:62c3:fffe]'', port = PNum 8888,
             method = Str ''bf-cfb'', password = Str ''test'', tag = Undefined,
             plugin = Undefined \<rparr>)
     (\<lambda>u. LegacyBase64URI_parse reference (LegacyBase64URI_toString reference u)) =
   Inl (InvalidConfigField ''Invalid host: [2001'') \<and>
   LegacyBase64URI_parse reference
     (''ss://YmYtY2ZiOnRlc3RAWzIwMDE6MDpjZTQ5Ojc2MDE6ZTg2NjplZmZmOjYyYzM6ZmZmZV06'' @
      ''ODg4OA'') =
   Inl (InvalidConfigField ''Invalid host: [2001'')"
  by code_simp

section \<open>The dispatcher's order\<close>

text \<open>
  Claim C2, as amended. For every input, \<^verbatim>\<open>ShadowsocksURI.parse\<close> tries the legacy
  base64 parser first and the SIP002 parser second, and returns the result of the first
  of them that succeeds: the legacy result whenever the legacy parser succeeds, the
  SIP002 result when the legacy parser fails and the SIP002 parser succeeds, and no
  other result.
\<close>

theorem dispatch_order:
  "(\<forall>u. LegacyBase64URI_parse P uri = Inr u \<longrightarrow> ShadowsocksURI_parse P uri = Inr (Legacy u)) \<and>
   (\<forall>e v. LegacyBase64URI_parse P uri = Inl e \<longrightarrow> Sip002URI_parse P uri = Inr v \<longrightarrow>
      ShadowsocksURI_parse P uri = Inr (Sip002 v)) \<and>
   (\<forall>r. ShadowsocksURI_parse P uri = Inr r \<longrightarrow>
      (case r of
         Legacy u \<Rightarrow> LegacyBase64URI_parse P uri = Inr u
       | Sip002 v \<Rightarrow> isl (LegacyBase64URI_parse P uri) \<and> Sip002URI_parse P uri = Inr v))"
  by (cases "LegacyBase64URI_parse P uri"; cases "Sip002URI_parse P uri")
     (auto simp: ShadowsocksURI_parse_def dispatch_def split: parsed.splits)

text \<open>
  On a SIP002 URI the legacy parser fails (the text after \<^verbatim>\<open>ss://\<close> is not base64) and
  the dispatcher returns what the SIP002 parser returns.
\<close>

theorem dispatch_order_witness:
  "LegacyBase64URI_parse reference ''ss://cmM0LW1kNTpwYXNzd2Q=@192.168.100.1:8888/'' =
     Inl (PlatformError InvalidCharacterError) \<and>
   Sip002URI_parse reference ''ss://cmM0LW1kNTpwYXNzd2Q=@192.168.100.1:8888/'' =
     Inr \<lparr> host_field = MkHost ''192.168.100.1'', port_field = MkPort ''8888'',
           method_field = MkMethod ''rc4-md5'', password_field = MkPassword ''passwd'',
           tag_field = MkTag [], b64EncodedUserInfo = ''cmM0LW1kNTpwYXNzd2Q='',
           plugin_field = MkPlugin [] \<rparr> \<and>
   ShadowsocksURI_parse reference ''ss://cmM0LW1kNTpwYXNzd2Q=@192.168.100.1:8888/'' =
     Inr (Sip002 \<lparr> host_field = MkHost ''192.168.100.1'', port_field = MkPort ''8888'',
           method_field = MkMethod ''rc4-md5'', password_field = MkPassword ''passwd'',
           tag_field = MkTag [], b64EncodedUserInfo = ''cmM0LW1kNTpwYXNzd2Q='',
           plugin_field = MkPlugin [] \<rparr>)"
proof -
  let ?uri = "''ss://cmM0LW1kNTpwYXNzd2Q=@192.168.100.1:8888/''"
  let ?v = "\<lparr> host_field = MkHost ''192.168.100.1'', port_field = MkPort ''8888'',
           method_field = MkMethod ''rc4-md5'', password_field = MkPassword ''passwd'',
           tag_field = MkTag [], b64EncodedUserInfo = ''cmM0LW1kNTpwYXNzd2Q='',
           plugin_field = MkPlugin [] \<rparr>"
  have l: "LegacyBase64URI_parse reference ?uri = Inl (PlatformError InvalidCharacterError)"
    by code_simp
  have s: "Sip002URI_parse reference ?uri = Inr ?v"
    by code_simp
  note d = dispatch_order [of reference ?uri, THEN conjunct2, THEN conjunct1, rule_format, OF l s]
  from l s d show ?thesis by (intro conjI)
qed

text \<open>
  The order the specification gives, SIP002 first, is not the source's: on the input
  \<^verbatim>\<open>ss://\<close> both parsers fail, the source throws the legacy parser's
  \<^verbatim>\<open>InvalidURI\<close>, and a dispatcher that tried SIP002 first would throw the URL
  parser's error wrapped in a new \<^verbatim>\<open>InvalidURI\<close>.
\<close>

theorem dispatch_order_counterexample:
  "ShadowsocksURI_parse reference ''ss://'' =
     Inl (InvalidURI (''Missing '' @ dquote @ ''@'' @ dquote @ '': '')) \<and>
   dispatch reference claimed_order ''ss://'' =
     Inl (InvalidURI ''Invalid input: ss:// - Original error: TypeError: Invalid URL'') \<and>
   ShadowsocksURI_parse reference ''ss://'' \<noteq> dispatch reference claimed_order ''ss://''"
  by code_simp

section \<open>SIP002 serialization\<close>

text \<open>
  What the serializer writes, on every platform. A \<^verbatim>\<open>Sip002URI\<close> that was constructed
  is written as \<^verbatim>\<open>ss://\<close>, the base64 of method, colon and password, \<open>@\<close>, the host's
  data as it is, a colon, the port, a slash, \<^verbatim>\<open>?plugin=\<close> and the plugin as it is when
  the plugin is not empty, and the tag fragment. A valid \<^verbatim>\<open>Config\<close> whose host and
  port validate again to themselves, and whose method and password the encoder accepts,
  is accepted by the constructor and written so from its own data.
\<close>

lemma sip002_toString_constructed:
  assumes "new_Sip002URI P config = Inr u"
  shows "\<exists>d. b64Encode P (Config_method u @ '':'' @ Config_password u) = Inr d \<and>
           Sip002URI_toString P u =
             ''ss://'' @ d @ ''@'' @ Config_host u @ '':'' @ Config_port u @ ''/'' @
             (if Sip002URI_plugin u = [] then [] else ''?plugin='' @ Sip002URI_plugin u) @
             tagFragment P (Config_tag u)"
  using new_Sip002URI_Inr [OF assms] by (simp add: Sip002URI_toString_raw)

lemma sip002_toString_revalidating:
  assumes c: "new_Config P raw = Inr c" and r: "revalidates P c"
    and d: "b64Encode P (Config_method c @ '':'' @ Config_password c) = Inr d"
  shows "map_sum id (Sip002URI_toString P)
           (new_Sip002URI P ((as_UnsafeConfig c)\<lparr> plugin := Str p \<rparr>)) =
         Inr (''ss://'' @ d @ ''@'' @ Config_host c @ '':'' @ Config_port c @ ''/'' @
              (if p = [] then [] else ''?plugin='' @ p) @ tagFragment P (Config_tag c))"
proof -
  have again: "new_Config P (as_UnsafeConfig c) = Inr c"
    using c r by (rule new_Config_again)
  have same: "new_Config P ((as_UnsafeConfig c)\<lparr> plugin := Str p \<rparr>) =
              new_Config P (as_UnsafeConfig c)"
    by (simp add: new_Config_def)
  have "new_Sip002URI P ((as_UnsafeConfig c)\<lparr> plugin := Str p \<rparr>) =
          Inr (Config.extend c (Sip002URI.fields d (MkPlugin p)))"
    using d
    by (simp add: new_Sip002URI_def new_ShadowsocksURI_def again same bind_def
        platform_call_def new_Plugin_def unwrap_def or_empty_def)
  then show ?thesis by (simp add: Sip002URI_toString_raw)
qed

text \<open>
  The specification's first scenario with a plugin added, on the reference platform: the
  configuration is valid, its host and port validate again to themselves, and the
  plugin \<open>obfs-local\<close> is one that percent-encoding leaves as it is.
\<close>

lemma sip002_toString_example:
  "map_sum id (Sip002URI_toString reference)
     (new_Sip002URI reference
        ((as_UnsafeConfig
           \<lparr> host_field = MkHost ''192.168.100.1'', port_field = MkPort ''8888'',
             method_field = MkMethod ''aes-128-gcm'', password_field = MkPassword ''test'',
             tag_field = MkTag ''Foo Bar'' \<rparr>)\<lparr> plugin := Str ''obfs-local'' \<rparr>)) =
     Inr ''ss://YWVzLTEyOC1nY206dGVzdA==@192.168.100.1:8888/?plugin=obfs-local#Foo%20Bar'' \<and>
   queryString reference ''obfs-local'' = ''?plugin=obfs-local''"
proof -
  let ?raw = "\<lparr> host = Str ''192.168.100.1'', port = PStr ''8888'', method = Str ''aes-128-gcm'',
       password = Str ''test'', tag = Str ''Foo Bar'', plugin = Undefined \<rparr>"
  let ?c = "\<lparr> host_field = MkHost ''192.168.100.1'', port_field = MkPort ''8888'',
           method_field = MkMethod ''aes-128-gcm'', password_field = MkPassword ''test'',
           tag_field = MkTag ''Foo Bar'' \<rparr>"
  have c: "new_Config reference ?raw = Inr ?c" by code_simp
  have r: "revalidates reference ?c" by code_simp
  have d: "b64Encode reference (Config_method ?c @ '':'' @ Config_password ?c) =
             Inr ''YWVzLTEyOC1nY206dGVzdA==''"
    by code_simp
  have v: "''ss://'' @ ''YWVzLTEyOC1nY206dGVzdA=='' @ ''@'' @ Config_host ?c @ '':'' @
             Config_port ?c @ ''/'' @
             (if ''obfs-local'' = [] then [] else ''?plugin='' @ ''obfs-local'') @
             tagFragment reference (Config_tag ?c) =
           ''ss://YWVzLTEyOC1nY206dGVzdA==@192.168.100.1:8888/?plugin=obfs-local#Foo%20Bar''"
    by code_simp
  have q: "queryString reference ''obfs-local'' = ''?plugin=obfs-local''" by code_simp
  note t = sip002_toString_revalidating [OF c r d, of "''obfs-local''"]
  from t [unfolded v] q show ?thesis by (intro conjI)
qed

text \<open>
  Claim C3. The specification asks that every valid \<^verbatim>\<open>Config\<close> is serialized with an
  IPv6 host wrapped in square brackets and with the plugin percent-encoded, and gives
  the serialization of the host \<^verbatim>\<open>2001:0:ce49:7601:e866:efff:62c3:fffe\<close> with port
  8888, method aes-128-gcm, password test and tag Foo Bar. The source does not do so,
  three times over. That host is rejected, by \<^verbatim>\<open>Config\<close> and by \<^verbatim>\<open>Sip002URI\<close>, so
  nothing is serialized; only the host written with its brackets gives the URI of the
  specification. A plugin is written into the query string as it is, while the tag is
  percent-encoded: the plugin \<^verbatim>\<open>obfs-local;obfs=http\<close> is written with its \<open>;\<close> and
  \<open>=\<close>. And the valid \<^verbatim>\<open>Config\<close> with port 80, whose port data is empty, is rejected
  by the constructor of \<^verbatim>\<open>Sip002URI\<close>.
\<close>

theorem sip002_serialization_divergence:
  "new_Config reference
     \<lparr> host = Str ''2001:0:ce49:7601:e866:efff:62c3:fffe'', port = PStr ''8888'',
       method = Str ''aes-128-gcm'', password = Str ''test'', tag = Str ''Foo Bar'',
       plugin = Undefined \<rparr> =
     Inl (InvalidConfigField ''Invalid host: 2001:0:ce49:7601:e866:efff:62c3:fffe'') \<and>
   new_Sip002URI reference
     \<lparr> host = Str ''2001:0:ce49:7601:e866:efff:62c3:fffe'', port = PStr ''8888'',
       method = Str ''aes-128-gcm'', password = Str ''test'', tag = Str ''Foo Bar'',
       plugin = Undefined \<rparr> =
     Inl (InvalidConfigField ''Invalid host: 2001:0:ce49:7601:e866:efff:62c3:fffe'') \<and>
   map_sum id (Sip002URI_toString reference)
     (new_Sip002URI reference
        \<lparr> host = Str ''[2001:0:ce49:7601:e866:efff:62c3:fffe]'', port = PStr ''8888'',
          method = Str ''aes-128-gcm'', password = Str ''test'', tag = Str ''Foo Bar'',
          plugin = Undefined \<rparr>) =
     Inr ''ss://YWVzLTEyOC1nY206dGVzdA==@[2001:0:ce49:7601:e866:efff:62c3:fffe]:8888/#Foo%20Bar'' \<and>
   map_sum id (Sip002URI_toString reference)
     (new_Sip002URI reference
        \<lparr> host = Str ''192.168.100.1'', port = PStr ''8888'', method = Str ''rc4-md5'',
          password = Str ''passwd'', tag = Undefined, plugin = Str ''obfs-local;obfs=http'' \<rparr>) =
     Inr ''ss://cmM0LW1kNTpwYXNzd2Q=@192.168.100.1:8888/?plugin=obfs-local;obfs=http'' \<and>
   queryString reference ''obfs-local;obfs=http'' = ''?plugin=obfs-local%3Bobfs%3Dhttp'' \<and>
   new_Config reference
     \<lparr> host = Str ''192.168.100.1'', port = PNum 80, method = Str ''aes-128-gcm'',
       password = Str ''test'', tag = Str ''Foo Bar'', plugin = Undefined \<rparr> =
     Inr \<lparr> host_field = MkHost ''192.168.100.1'', port_field = MkPort [],
           method_field = MkMethod ''aes-128-gcm'', password_field = MkPassword ''test'',
           tag_field = MkTag ''Foo Bar'' \<rparr> \<and>
   new_Sip002URI reference
     \<lparr> host = Str ''192.168.100.1'', port = PNum 80, method = Str ''aes-128-gcm'',
       password = Str ''test'', tag = Str ''Foo Bar'', plugin = Undefined \<rparr> =
     Inl (InvalidConfigField ''Invalid port: '')"
  by code_simp

section \<open>Config construction\<close>

text \<open>
  Claim C4. The specification asks that the construction of a \<^verbatim>\<open>Config\<close> fails when
  a required field is missing. A missing host does not fail: \<^verbatim>\<open>undefined\<close> is written
  into the URL given to the parser as the text \<open>undefined\<close>, which is a valid host
  name, and the construction succeeds with that host.
\<close>

theorem config_missing_host:
  "new_Config reference
     \<lparr> host = Undefined, port = PStr ''8388'', method = Str ''aes-128-gcm'',
       password = Str ''test'', tag = Undefined, plugin = Undefined \<rparr> =
   Inr \<lparr> host_field = MkHost ''undefined'', port_field = MkPort ''8388'',
         method_field = MkMethod ''aes-128-gcm'', password_field = MkPassword ''test'',
         tag_field = MkTag [] \<rparr>"
  by code_simp

section \<open>The dispatcher's error\<close>

text \<open>
  Claim C5. When both parsers fail on an input, \<^verbatim>\<open>ShadowsocksURI.parse\<close> throws one
  error, decided by the first failure recorded (that of the parser tried first) alone:
  that error itself when it is an \<^verbatim>\<open>InvalidURI\<close>, and otherwise a new
  \<^verbatim>\<open>InvalidURI\<close> whose message contains the input, the first failure's name and its
  message. The second parser's failure does not occur in the result.
\<close>

theorem dispatch_all_fail:
  assumes l: "LegacyBase64URI_parse P uri = Inl e1"
    and s: "Sip002URI_parse P uri = Inl e2"
  shows "\<exists>m. ShadowsocksURI_parse P uri = Inl (InvalidURI m) \<and>
           (if is_InvalidURI e1 then e1 = InvalidURI m
            else m = ''Invalid input: '' @ uri @ '' - Original error: '' @
                     or_default (error_name e1) ''(Unnamed Error)'' @ '': '' @
                     or_default (error_message e1) ''(no error message provided)'' \<and>
                 sublist uri m \<and> sublist (error_name e1) m \<and> sublist (error_message e1) m)"
proof -
  have res: "ShadowsocksURI_parse P uri = Inl (rethrow uri (Some e1))"
    using l s by (simp add: ShadowsocksURI_parse_def dispatch_def)
  show ?thesis
  proof (cases "is_InvalidURI e1")
    case True
    then obtain m where "e1 = InvalidURI m" by (cases e1) auto
    with res True show ?thesis by (simp add: rethrow_def)
  next
    case False
    let ?n = "or_default (error_name e1) ''(Unnamed Error)''"
    let ?g = "or_default (error_message e1) ''(no error message provided)''"
    let ?m = "''Invalid input: '' @ uri @ '' - Original error: '' @ ?n @ '': '' @ ?g"
    have r: "ShadowsocksURI_parse P uri = Inl (InvalidURI ?m)"
      using res False by (simp add: rethrow_def Let_def)
    have u: "sublist uri ?m"
      using sublist_mid [of uri "''Invalid input: ''"] by simp
    have n: "sublist (error_name e1) ?m"
      using or_default_sublist [of "error_name e1"
          "''Invalid input: '' @ uri @ '' - Original error: ''" "''(Unnamed Error)''"
          "'': '' @ ?g"]
      by simp
    have g: "sublist (error_message e1) ?m"
      using or_default_sublist [of "error_message e1"
          "''Invalid input: '' @ uri @ '' - Original error: '' @ ?n @ '': ''"
          "''(no error message provided)''" "[]"]
      by simp
    from r u n g False show ?thesis by simp
  qed
qed

text \<open>
  On \<^verbatim>\<open>ss://not-base64\<close> the legacy parser fails in the base64 decoder and the SIP002
  parser on the missing port; the error thrown wraps the decoder's.
\<close>

theorem dispatch_all_fail_witness:
  "LegacyBase64URI_parse reference ''ss://not-base64'' = Inl (PlatformError InvalidCharacterError) \<and>
   Sip002URI_parse reference ''ss://not-base64'' = Inl (InvalidConfigField ''Invalid port: '') \<and>
   ShadowsocksURI_parse reference ''ss://not-base64'' =
     Inl (InvalidURI (''Invalid input: ss://not-base64 - Original error: '' @
            ''InvalidCharacterError: '' @
            ''Invalid character: the string to be decoded is not correctly encoded.''))"
proof -
  have l: "LegacyBase64URI_parse reference ''ss://not-base64'' =
             Inl (PlatformError InvalidCharacterError)"
    by code_simp
  have s: "Sip002URI_parse reference ''ss://not-base64'' =
             Inl (InvalidConfigField ''Invalid port: '')"
    by code_simp
  from dispatch_all_fail [OF l s] obtain m where
    "ShadowsocksURI_parse reference ''ss://not-base64'' = Inl (InvalidURI m)" and
    "m = ''Invalid input: '' @ ''ss://not-base64'' @ '' - Original error: '' @
         or_default (error_name (PlatformError InvalidCharacterError)) ''(Unnamed Error)'' @
         '': '' @
         or_default (error_message (PlatformError InvalidCharacterError))
           ''(no error message provided)''"
    by auto
  with l s show ?thesis
    by (simp add: InvalidCharacterError_def or_default_def)
qed

section \<open>Port\<close>

text \<open>
  Claim C6. The specification asks that a port denoting an integer from 0 to 65535 is
  accepted with that integer's decimal string as data, and that any other input is
  rejected. The port is validated as the port of an \<^verbatim>\<open>http\<close> URL, whose default port
  80 the URL parser reports as the empty string: the port 80, as a string or as a
  number, is accepted with empty data. The text \<^verbatim>\<open>8080/x\<close>, which is no integer, is
  accepted with the data 8080.
\<close>

theorem port_80:
  "new_Port reference (PStr ''80'') = Inr (MkPort []) \<and>
   new_Port reference (PNum 80) = Inr (MkPort []) \<and>
   new_Port reference (PStr ''8080/x'') = Inr (MkPort ''8080'')"
  by code_simp

section \<open>Host\<close>

text \<open>
  Claim C7. The specification asks that the hosts \<open>-\<close>, \<open>-pwned\<close>, \<open>.\<close> and \<open>....\<close>
  are rejected, as the empty host and \<^verbatim>\<open>;echo pwned\<close> are. The source accepts
  whatever the URL parser accepts as the host of an \<^verbatim>\<open>http\<close> URL, and that parser
  checks neither hyphens nor empty labels: the four hosts are accepted unchanged, the
  other two are rejected.
\<close>

theorem host_accepts_hyphen_and_dots:
  "new_Host reference (Str ''-'') = Inr (MkHost ''-'') \<and>
   new_Host reference (Str ''-pwned'') = Inr (MkHost ''-pwned'') \<and>
   new_Host reference (Str ''.'') = Inr (MkHost ''.'') \<and>
   new_Host reference (Str ''....'') = Inr (MkHost ''....'') \<and>
   new_Host reference (Str []) = Inl (InvalidConfigField ''Invalid host: '') \<and>
   new_Host reference (Str '';echo pwned'') =
     Inl (InvalidConfigField ''Invalid host: ;echo pwned'')"
  by code_simp

section \<open>Legacy serialization\<close>

text \<open>
  What the serializer writes, on every platform. A \<^verbatim>\<open>LegacyBase64URI\<close> that was
  constructed is written as \<^verbatim>\<open>ss://\<close>, the base64 of method, colon, password, \<open>@\<close>,
  host, colon and port with all trailing \<open>=\<close> removed, and the tag fragment: the
  padding loop of the constructor removes exactly the trailing \<open>=\<close>. A valid
  \<^verbatim>\<open>Config\<close> whose host and port validate again to themselves, and whose text the
  encoder accepts, is accepted by the constructor and written so from its own data.
\<close>

lemma legacy_toString_constructed:
  assumes "new_LegacyBase64URI P config = Inr u"
  shows "\<exists>d. b64Encode P (Config_method u @ '':'' @ Config_password u @ ''@'' @
               Config_host u @ '':'' @ Config_port u) = Inr d \<and>
           LegacyBase64URI_toString P u =
             ''ss://'' @ strip_trailing_equals d @ tagFragment P (Config_tag u)"
  using new_LegacyBase64URI_Inr [OF assms]
  by (auto simp: LegacyBase64URI_toString_def strip_padding_spec getHash_as_UnsafeConfig)

lemma legacy_toString_revalidating:
  assumes c: "new_Config P raw = Inr c" and r: "revalidates P c"
    and d: "b64Encode P (Config_method c @ '':'' @ Config_password c @ ''@'' @
              Config_host c @ '':'' @ Config_port c) = Inr d"
  shows "map_sum id (LegacyBase64URI_toString P) (new_LegacyBase64URI P (as_UnsafeConfig c)) =
         Inr (''ss://'' @ strip_trailing_equals d @ tagFragment P (Config_tag c))"
proof -
  have again: "new_Config P (as_UnsafeConfig c) = Inr c"
    using c r by (rule new_Config_again)
  have "new_LegacyBase64URI P (as_UnsafeConfig c) =
          Inr (Config.extend c (LegacyBase64URI.fields (strip_padding d)))"
    using d
    by (simp add: new_LegacyBase64URI_def new_ShadowsocksURI_def again bind_def
        platform_call_def)
  then show ?thesis
    by (simp add: LegacyBase64URI_toString_def strip_padding_spec getHash_as_UnsafeConfig)
qed

text \<open>
  A configuration whose base64 ends in two \<open>=\<close>, on the reference platform: the
  configuration is valid, its host and port validate again to themselves, and the
  padding is gone from the URI.
\<close>

lemma legacy_toString_example:
  "b64Encode reference ''aes-256-gcm:secret@example.com:443'' =
     Inr ''YWVzLTI1Ni1nY206c2VjcmV0QGV4YW1wbGUuY29tOjQ0Mw=='' \<and>
   map_sum id (LegacyBase64URI_toString reference)
     (new_LegacyBase64URI reference
        (as_UnsafeConfig
           \<lparr> host_field = MkHost ''example.com'', port_field = MkPort ''443'',
             method_field = MkMethod ''aes-256-gcm'', password_field = MkPassword ''secret'',
             tag_field = MkTag [] \<rparr>)) =
     Inr ''ss://YWVzLTI1Ni1nY206c2VjcmV0QGV4YW1wbGUuY29tOjQ0Mw''"
proof -
  let ?raw = "\<lparr> host = Str ''example.com'', port = PNum 443, method = Str ''aes-256-gcm'',
       password = Str ''secret'', tag = Undefined, plugin = Undefined \<rparr>"
  let ?c = "\<lparr> host_field = MkHost ''example.com'', port_field = MkPort ''443'',
       method_field = MkMethod ''aes-256-gcm'', password_field = MkPassword ''secret'',
       tag_field = MkTag [] \<rparr>"
  have c: "new_Config reference ?raw = Inr ?c" by code_simp
  have r: "revalidates reference ?c" by code_simp
  have e: "b64Encode reference ''aes-256-gcm:secret@example.com:443'' =
             Inr ''YWVzLTI1Ni1nY206c2VjcmV0QGV4YW1wbGUuY29tOjQ0Mw==''"
    by code_simp
  have d: "b64Encode reference (Config_method ?c @ '':'' @ Config_password ?c @ ''@'' @
             Config_host ?c @ '':'' @ Config_port ?c) =
             Inr ''YWVzLTI1Ni1nY206c2VjcmV0QGV4YW1wbGUuY29tOjQ0Mw==''"
    by code_simp
  have v: "''ss://'' @
             strip_trailing_equals ''YWVzLTI1Ni1nY206c2VjcmV0QGV4YW1wbGUuY29tOjQ0Mw=='' @
             tagFragment reference (Config_tag ?c) =
           ''ss://YWVzLTI1Ni1nY206c2VjcmV0QGV4YW1wbGUuY29tOjQ0Mw''"
    by code_simp
  note t = legacy_toString_revalidating [OF c r d]
  from e t [unfolded v] show ?thesis by (intro conjI)
qed

text \<open>
  Claim C8. The specification asks that every valid \<^verbatim>\<open>Config\<close> is serialized as
  \<^verbatim>\<open>ss://\<close>, the base64 of method, colon, password, \<open>@\<close>, host, colon and port without
  its trailing \<open>=\<close>, and the tag fragment. The configuration with host example.com,
  port 80, method aes-256-gcm and password secret is a valid \<^verbatim>\<open>Config\<close>, with empty
  port data, and it is not serialized: the constructor of \<^verbatim>\<open>LegacyBase64URI\<close>
  validates the fields again and rejects the empty port, whether it is given the fields
  or the \<^verbatim>\<open>Config\<close>. The specification's URI for it is
  \<^verbatim>\<open>ss://YWVzLTI1Ni1nY206c2VjcmV0QGV4YW1wbGUuY29tOjgw\<close>. The scenario of the
  specification, with port 8888, is serialized as the specification says.
\<close>

theorem legacy_serialization_port_80:
  "new_Config reference
     \<lparr> host = Str ''example.com'', port = PNum 80, method = Str ''aes-256-gcm'',
       password = Str ''secret'', tag = Undefined, plugin = Undefined \<rparr> =
     Inr \<lparr> host_field = MkHost ''example.com'', port_field = MkPort [],
           method_field = MkMethod ''aes-256-gcm'', password_field = MkPassword ''secret'',
           tag_field = MkTag [] \<rparr> \<and>
   new_LegacyBase64URI reference
     \<lparr> host = Str ''example.com'', port = PNum 80, method = Str ''aes-256-gcm'',
       password = Str ''secret'', tag = Undefined, plugin = Undefined \<rparr> =
     Inl (InvalidConfigField ''Invalid port: '') \<and>
   new_LegacyBase64URI reference
     (as_UnsafeConfig
        \<lparr> host_field = MkHost ''example.com'', port_field = MkPort [],
          method_field = MkMethod ''aes-256-gcm'', password_field = MkPassword ''secret'',
          tag_field = MkTag [] \<rparr>) =
     Inl (InvalidConfigField ''Invalid port: '') \<and>
   map_sum id (\<lambda>d. ''ss://'' @ strip_trailing_equals d @ tagFragment reference [])
     (b64Encode reference ''aes-256-gcm:secret@example.com:80'') =
     Inr ''ss://YWVzLTI1Ni1nY206c2VjcmV0QGV4YW1wbGUuY29tOjgw'' \<and>
   map_sum id (LegacyBase64URI_toString reference)
     (new_LegacyBase64URI reference
        \<lparr> host = Str ''192.168.100.1'', port = PStr ''8888'', method = Str ''bf-cfb'',
          password = Str ''test'', tag = Str ''Foo Bar'', plugin = Undefined \<rparr>) =
     Inr ''ss://YmYtY2ZiOnRlc3RAMTkyLjE2OC4xMDAuMTo4ODg4#Foo%20Bar''"
  by code_simp

section \<open>Idempotence\<close>

text \<open>
  Claim C9. The specification asks that validating the data of a validated field again
  succeeds with the same result. For the port it does not: the port 80 is accepted with
  empty data, and the empty string is rejected.
\<close>

theorem port_not_idempotent:
  "new_Port reference (PStr ''80'') = Inr (MkPort []) \<and>
   new_Port reference (PStr (Port_data (MkPort []))) =
     Inl (InvalidConfigField ''Invalid port: '')"
  by code_simp

section \<open>Copy construction\<close>

text \<open>
  What the constructors do with an instance of their class, on every platform: they
  take its data and validate it as they validate a string. So the copy of a method
  that was constructed, and of every password, tag and plugin, is the instance itself,
  and the copy of a host or a port is the instance itself when the URL parser maps the
  data back to itself and, for a port, the data is not empty.
\<close>

lemma copy_is_validation:
  "new_Host P (Inst h) = new_Host P (Str (Host_data h)) \<and>
   new_Port P (PInst p) = new_Port P (PStr (Port_data p)) \<and>
   new_Method (Inst m) = new_Method (Str (Method_data m)) \<and>
   (\<forall>x. new_Method x = Inr m \<longrightarrow> new_Method (Inst m) = Inr m) \<and>
   new_Password (Inst pw) = pw \<and>
   new_Tag (Inst t) = t \<and>
   new_Plugin (Inst g) = g \<and>
   (new_Host P (Inst h) = Inr h \<longleftrightarrow>
      (\<exists>u. URL P (''http://'' @ Host_data h @ ''/'') = Inr u \<and> url_hostname u = Host_data h)) \<and>
   (new_Port P (PInst p) = Inr p \<longleftrightarrow>
      Port_data p \<noteq> [] \<and>
      (\<exists>u. URL P (''http://0.0.0.0:'' @ Port_data p @ ''/'') = Inr u \<and>
           url_port u = Port_data p))"
proof (intro conjI allI impI)
  show "new_Host P (Inst h) = new_Host P (Str (Host_data h))"
    by (simp add: new_Host_def unwrap_def)
  show "new_Port P (PInst p) = new_Port P (PStr (Port_data p))"
    by (simp add: new_Port_def port_text_def port_is_empty_string_def split: sum.splits)
  show "new_Method (Inst m) = new_Method (Str (Method_data m))"
    by (simp add: new_Method_def unwrap_def)
  show "new_Method (Inst m) = Inr m" if "new_Method x = Inr m" for x
    using that by (auto simp: new_Method_Inr_iff unwrap_def)
  show "new_Password (Inst pw) = pw"
    by (simp add: new_Password_def unwrap_def or_empty_def)
  show "new_Tag (Inst t) = t"
    by (simp add: new_Tag_def unwrap_def or_empty_def)
  show "new_Plugin (Inst g) = g"
    by (simp add: new_Plugin_def unwrap_def or_empty_def)
  show "new_Host P (Inst h) = Inr h \<longleftrightarrow>
      (\<exists>u. URL P (''http://'' @ Host_data h @ ''/'') = Inr u \<and> url_hostname u = Host_data h)"
    by (cases h; cases "URL P (''http://'' @ Host_data h @ ''/'')")
       (auto simp: new_Host_def unwrap_def template_def Let_def)
  show "new_Port P (PInst p) = Inr p \<longleftrightarrow>
      Port_data p \<noteq> [] \<and>
      (\<exists>u. URL P (''http://0.0.0.0:'' @ Port_data p @ ''/'') = Inr u \<and>
           url_port u = Port_data p)"
    by (cases p; cases "URL P (''http://0.0.0.0:'' @ Port_data p @ ''/'')")
       (auto simp: new_Port_def port_text_def port_is_empty_string_def)
qed

text \<open>
  Claim C10. The specification asks that constructing a field from an instance of its
  class succeeds and gives an instance with the same data. The port constructed from
  80, as a string or as a number, has empty data, and its copy is rejected by the guard
  against the empty string. The copies of the host, port, method, password, tag and
  plugin of the specification's scenarios succeed with the same data.
\<close>

theorem copy_construction_port_80:
  "bind (new_Port reference (PStr ''80'')) (\<lambda>f. new_Port reference (PInst f)) =
     Inl (InvalidConfigField ''Invalid port: '') \<and>
   bind (new_Port reference (PNum 80)) (\<lambda>f. new_Port reference (PInst f)) =
     Inl (InvalidConfigField ''Invalid port: '') \<and>
   bind (new_Port reference (PStr ''8888'')) (\<lambda>f. new_Port reference (PInst f)) =
     Inr (MkPort ''8888'') \<and>
   bind (new_Host reference (Str ''192.168.100.1'')) (\<lambda>f. new_Host reference (Inst f)) =
     Inr (MkHost ''192.168.100.1'') \<and>
   bind (new_Method (Str ''bf-cfb'')) (\<lambda>f. new_Method (Inst f)) = Inr (MkMethod ''bf-cfb'') \<and>
   new_Password (Inst (new_Password (Str ''test''))) = MkPassword ''test'' \<and>
   new_Tag (Inst (new_Tag (Str ''Foo Bar''))) = MkTag ''Foo Bar'' \<and>
   new_Plugin (Inst (new_Plugin (Str ''obfs-local;obfs=http''))) =
     MkPlugin ''obfs-local;obfs=http''"
  by code_simp

end
